theory Spec2Isabelle
  imports Main
begin

section \<open>JavaScript strings\<close>

text \<open>
  A JavaScript string is modelled as a \<^typ>\<open>string\<close>: the list of its code units.
  \<open>length\<close> is the JavaScript \<open>.length\<close>.
\<close>

definition startsWith :: "string \<Rightarrow> string \<Rightarrow> bool" where
  "startsWith s p = (take (length p) s = p)"

definition endsWith :: "string \<Rightarrow> string \<Rightarrow> bool" where
  "endsWith s p = (length p \<le> length s \<and> drop (length s - length p) s = p)"

text \<open>\<open>s.split(c)\<close> for a one-character separator: always at least one piece.\<close>

fun split_on :: "char \<Rightarrow> string \<Rightarrow> string list" where
  "split_on c [] = [[]]"
| "split_on c (x # xs) =
     (if x = c then [] # split_on c xs
      else (case split_on c xs of
              [] \<Rightarrow> [[x]]
            | w # ws \<Rightarrow> (x # w) # ws))"

text \<open>\<open>xs.join(sep)\<close>.\<close>

fun join_with :: "string \<Rightarrow> string list \<Rightarrow> string" where
  "join_with sep [] = []"
| "join_with sep [x] = x"
| "join_with sep (x # y # ys) = x @ sep @ join_with sep (y # ys)"

section \<open>POSIX paths (Node's \<open>path\<close> module)\<close>

text \<open>
  \<open>normalizeString\<close>: empty segments and \<open>.\<close> are dropped, \<open>..\<close> removes the segment
  before it; above the top, \<open>..\<close> is kept only when \<open>allowAboveRoot\<close> is set. The
  accumulator holds the segments kept so far, last one first.
\<close>

fun normalize_segs :: "bool \<Rightarrow> string list \<Rightarrow> string list \<Rightarrow> string list" where
  "normalize_segs allowAboveRoot acc [] = rev acc"
| "normalize_segs allowAboveRoot acc (s # ss) =
     (if s = [] \<or> s = ''.'' then normalize_segs allowAboveRoot acc ss
      else if s = ''..'' then
        (case acc of
           [] \<Rightarrow> normalize_segs allowAboveRoot (if allowAboveRoot then [''..''] else []) ss
         | t # ts \<Rightarrow>
             if t = ''..'' then
               normalize_segs allowAboveRoot (if allowAboveRoot then ''..'' # acc else acc) ss
             else normalize_segs allowAboveRoot ts ss)
      else normalize_segs allowAboveRoot (s # acc) ss)"

definition isAbsolute :: "string \<Rightarrow> bool" where
  "isAbsolute p = (p \<noteq> [] \<and> hd p = CHR ''/'')"

text \<open>
  \<open>path.resolve(...paths)\<close>: the arguments are taken from the right until an absolute
  one is met; the working directory \<open>cwd\<close> (absolute) is the last resort. The list
  given here is the argument list reversed.
\<close>

fun resolve_raw :: "string \<Rightarrow> string list \<Rightarrow> string" where
  "resolve_raw cwd [] = cwd"
| "resolve_raw cwd (p # ps) =
     (if p = [] then resolve_raw cwd ps
      else if isAbsolute p then p
      else resolve_raw cwd ps @ ''/'' @ p)"

definition path_resolve :: "string \<Rightarrow> string list \<Rightarrow> string" where
  "path_resolve cwd paths =
     ''/'' @ join_with ''/'' (normalize_segs False [] (split_on (CHR ''/'') (resolve_raw cwd (rev paths))))"

text \<open>\<open>path.join(a, b)\<close> for two non-empty pieces: \<open>path.normalize(a + "/" + b)\<close>.\<close>

definition path_normalize :: "string \<Rightarrow> string" where
  "path_normalize p =
     (if p = [] then ''.''
      else
        let abs = isAbsolute p;
            trailing = (last p = CHR ''/'');
            body = join_with ''/'' (normalize_segs (\<not> abs) [] (split_on (CHR ''/'') p))
        in if body = [] then (if abs then ''/'' else if trailing then ''./'' else ''.'')
           else (if abs then ''/'' else []) @ body @ (if trailing then ''/'' else []))"

definition path_join :: "string \<Rightarrow> string \<Rightarrow> string" where
  "path_join a b =
     (if a = [] \<and> b = [] then ''.''
      else if a = [] then path_normalize b
      else if b = [] then path_normalize a
      else path_normalize (a @ ''/'' @ b))"

text \<open>
  \<open>path.dirname\<close>: trailing slashes are skipped, then the text up to the last slash
  at an index of at least 1 is returned.
\<close>

definition path_dirname :: "string \<Rightarrow> string" where
  "path_dirname p =
     (if p = [] then ''.''
      else
        let hasRoot = (hd p = CHR ''/'');
            r = dropWhile (\<lambda>c. c \<noteq> CHR ''/'') (dropWhile (\<lambda>c. c = CHR ''/'') (rev (tl p)))
        in if r = [] then (if hasRoot then ''/'' else ''.'')
           else if hasRoot \<and> length r = 1 then ''//''
           else hd p # rev (tl r))"

text \<open>
  \<open>path.extname\<close>: the text from the last dot of the last path component, empty when
  there is no dot, when the dot is the component's first character, or when the
  component is \<open>..\<close>.
\<close>

definition path_basename_raw :: "string \<Rightarrow> string" where
  "path_basename_raw p =
     rev (takeWhile (\<lambda>c. c \<noteq> CHR ''/'') (dropWhile (\<lambda>c. c = CHR ''/'') (rev p)))"

definition path_extname :: "string \<Rightarrow> string" where
  "path_extname p =
     (let b = path_basename_raw p;
          ext_rev = takeWhile (\<lambda>c. c \<noteq> CHR ''.'') (rev b);
          pre = take (length b - length ext_rev - 1) b
      in if CHR ''.'' \<notin> set b then []
         else if pre = [] then []
         else if b = ''..'' then []
         else CHR ''.'' # rev ext_rev)"

text \<open>
  \<open>path.relative(from, to)\<close> for two absolute paths: one \<open>..\<close> for every segment of
  \<open>from\<close> below the common prefix, then what is left of \<open>to\<close>.
\<close>

fun strip_common :: "string list \<Rightarrow> string list \<Rightarrow> string list \<times> string list" where
  "strip_common (x # xs) (y # ys) =
     (if x = y then strip_common xs ys else (x # xs, y # ys))"
| "strip_common xs ys = (xs, ys)"

definition path_relative :: "string \<Rightarrow> string \<Rightarrow> string \<Rightarrow> string" where
  "path_relative cwd from to =
     (let f = normalize_segs False [] (split_on (CHR ''/'') (path_resolve cwd [from]));
          t = normalize_segs False [] (split_on (CHR ''/'') (path_resolve cwd [to]));
          (f', t') = strip_common f t
      in join_with ''/'' (replicate (length f') ''..'' @ t'))"

text \<open>
  A resolved absolute path lies inside a directory when it is the directory itself
  or continues it after a slash.
\<close>

definition inside_dir :: "string \<Rightarrow> string \<Rightarrow> bool" where
  "inside_dir root p = (p = root \<or> startsWith p (root @ ''/''))"

section \<open>The file-content endpoint (\<open>GET /api/file\<close>)\<close>

datatype response =
    NoCodebase
  | MissingPath
  | Forbidden
  | NotFound string
  | Content string string

text \<open>
  \<open>cachedTarget\<close> is \<open>None\<close> until a codebase has been analysed; \<open>relPath\<close> is the
  query parameter (\<open>None\<close> when absent; an empty string is falsy as well);
  \<open>readFile\<close> is \<open>fs.readFileSync\<close>, \<open>None\<close> where it throws.
\<close>

definition api_file ::
  "string \<Rightarrow> (string \<Rightarrow> string option) \<Rightarrow> string option \<Rightarrow> string option \<Rightarrow> response" where
  "api_file cwd readFile cachedTarget relPath =
     (case cachedTarget of
        None \<Rightarrow> NoCodebase
      | Some target \<Rightarrow>
          (case relPath of
             None \<Rightarrow> MissingPath
           | Some rel \<Rightarrow>
               if rel = [] then MissingPath
               else
                 let fullPath = path_resolve cwd [target, rel] in
                 if \<not> startsWith fullPath (path_resolve cwd [target]) then Forbidden
                 else (case readFile fullPath of
                         Some content \<Rightarrow> Content rel content
                       | None \<Rightarrow> NotFound rel)))"

section \<open>Babel syntax trees\<close>

text \<open>
  A node of the tree \<open>@babel/parser\<close> returns: its \<open>type\<close>, the property of its parent
  it hangs under (\<open>slot\<close>: \<open>id\<close>, \<open>init\<close>, \<open>body\<close>, ...; the members of an array
  property share the property's name and keep their order), its \<open>name\<close>
  (identifiers), its \<open>value\<close> (string literals), its offsets \<open>start\<close> and \<open>end\<close> in the
  source text, the first and last line of its \<open>loc\<close>, and its child nodes in the
  order \<open>@babel/traverse\<close> visits them. A property that is absent or \<open>null\<close> is \<open>None\<close>.
\<close>

record node_info =
  ntype :: string
  slot :: string
  nname :: "string option"
  strval :: "string option"
  pstart :: "nat option"
  pend :: "nat option"
  loc :: "(nat \<times> nat) option"

datatype node = Node (info: node_info) (kids: "node list")

definition ty :: "node \<Rightarrow> string" where
  "ty n = ntype (info n)"

text \<open>\<open>n.k\<close> for a property holding one node, and for a property holding an array.\<close>

definition child :: "string \<Rightarrow> node \<Rightarrow> node option" where
  "child k n = find (\<lambda>c. slot (info c) = k) (kids n)"

definition children_of :: "string \<Rightarrow> node \<Rightarrow> node list" where
  "children_of k n = filter (\<lambda>c. slot (info c) = k) (kids n)"

text \<open>\<open>x?.name\<close>, \<open>x?.type\<close> and \<open>x?.value\<close> of a node that may be missing.\<close>

definition opt_name :: "node option \<Rightarrow> string option" where
  "opt_name x = (case x of None \<Rightarrow> None | Some n \<Rightarrow> nname (info n))"

definition opt_ty :: "node option \<Rightarrow> string option" where
  "opt_ty x = (case x of None \<Rightarrow> None | Some n \<Rightarrow> Some (ty n))"

definition opt_strval :: "node option \<Rightarrow> string option" where
  "opt_strval x = (case x of None \<Rightarrow> None | Some n \<Rightarrow> strval (info n))"

text \<open>
  Truthiness of a string that may be \<open>undefined\<close>, the operator \<open>||\<close> on two of them,
  and the text a template literal makes of one.
\<close>

definition truthy :: "string option \<Rightarrow> bool" where
  "truthy s = (case s of None \<Rightarrow> False | Some t \<Rightarrow> t \<noteq> [])"

definition or_else :: "string option \<Rightarrow> string option \<Rightarrow> string option" where
  "or_else a b = (if truthy a then a else b)"

definition js_text :: "string option \<Rightarrow> string" where
  "js_text s = (case s of None \<Rightarrow> ''undefined'' | Some t \<Rightarrow> t)"

text \<open>\<open>loc?.start.line || 0\<close> and \<open>loc?.end.line || 0\<close>.\<close>

definition start_line :: "node \<Rightarrow> nat" where
  "start_line n = (case loc (info n) of None \<Rightarrow> 0 | Some (a, b) \<Rightarrow> a)"

definition end_line :: "node \<Rightarrow> nat" where
  "end_line n = (case loc (info n) of None \<Rightarrow> 0 | Some (a, b) \<Rightarrow> b)"

text \<open>
  \<open>traverse(ast, visitors)\<close> enters every node below the root in depth-first order,
  parents before children. A visit is the node with its ancestors, nearest first;
  the last ancestor is the root (the \<open>File\<close> node), which is the \<open>parent\<close> of the
  \<open>Program\<close> but has no path of its own. These are the visits of a traversal that
  completes. Before it visits anything \<open>traverse\<close> registers the declarations of the
  tree in their scopes, and it throws on a tree it finds a clash in (\<open>TypeError:
  Duplicate declaration\<close>); that is a fact of the tree and not of the visitors, it is
  \<open>traverse_throws\<close> below, and every pass checks it where it first traverses a tree.
\<close>

fun walk :: "node list \<Rightarrow> node \<Rightarrow> (node \<times> node list) list" where
  "walk anc (Node i ks) = (Node i ks, anc) # concat (map (walk (Node i ks # anc)) ks)"

definition traverse :: "node \<Rightarrow> (node \<times> node list) list" where
  "traverse ast = concat (map (walk [ast]) (kids ast))"

text \<open>\<open>nodePath.parent.type\<close>.\<close>

definition parent_ty :: "node list \<Rightarrow> string option" where
  "parent_ty anc = (case anc of [] \<Rightarrow> None | p # _ \<Rightarrow> Some (ty p))"

section \<open>Exports, imports and top-level declarations of one file\<close>

text \<open>An export or declaration fact \<open>{ name, type }\<close>.\<close>

record fact =
  fname :: "string option"
  fkind :: string

text \<open>\<open>decl.type === t && decl.id\<close>.\<close>

definition declared :: "node \<Rightarrow> string \<Rightarrow> bool" where
  "declared decl t = (ty decl = t \<and> child ''id'' decl \<noteq> None)"

definition is_member :: "node option \<Rightarrow> bool" where
  "is_member left = (opt_ty left = Some ''MemberExpression'')"

definition object_name :: "node option \<Rightarrow> string option" where
  "object_name left = (case left of None \<Rightarrow> None | Some l \<Rightarrow> opt_name (child ''object'' l))"

definition property_name :: "node option \<Rightarrow> string option" where
  "property_name left = (case left of None \<Rightarrow> None | Some l \<Rightarrow> opt_name (child ''property'' l))"

definition exports_visitor :: "node \<Rightarrow> fact list" where
  "exports_visitor n =
     (if ty n = ''ExportNamedDeclaration'' then
        (case child ''declaration'' n of
           None \<Rightarrow> []
         | Some decl \<Rightarrow>
             if declared decl ''FunctionDeclaration'' then
               [\<lparr>fname = opt_name (child ''id'' decl), fkind = ''function''\<rparr>]
             else if declared decl ''ClassDeclaration'' then
               [\<lparr>fname = opt_name (child ''id'' decl), fkind = ''class''\<rparr>]
             else if ty decl = ''VariableDeclaration'' then
               concat (map (\<lambda>d. if truthy (opt_name (child ''id'' d))
                                 then [\<lparr>fname = opt_name (child ''id'' d), fkind = ''variable''\<rparr>]
                                 else [])
                           (children_of ''declarations'' decl))
             else if declared decl ''TSTypeAliasDeclaration'' then
               [\<lparr>fname = opt_name (child ''id'' decl), fkind = ''type''\<rparr>]
             else if declared decl ''TSInterfaceDeclaration'' then
               [\<lparr>fname = opt_name (child ''id'' decl), fkind = ''interface''\<rparr>]
             else if declared decl ''TSEnumDeclaration'' then
               [\<lparr>fname = opt_name (child ''id'' decl), fkind = ''enum''\<rparr>]
             else [])
        @ concat (map (\<lambda>spec. case child ''exported'' spec of
                                None \<Rightarrow> []
                              | Some e \<Rightarrow> [\<lparr>fname = nname (info e), fkind = ''re-export''\<rparr>])
                      (children_of ''specifiers'' n))
      else if ty n = ''ExportDefaultDeclaration'' then
        (let decl = child ''declaration'' n;
             declId = (case decl of None \<Rightarrow> None | Some d \<Rightarrow> child ''id'' d)
         in [\<lparr>fname = or_else (opt_name declId) (or_else (opt_name decl) (Some ''default'')),
              fkind = ''default''\<rparr>])
      else if ty n = ''AssignmentExpression'' then
        (let left = child ''left'' n; right = child ''right'' n in
         if is_member left \<and> object_name left = Some ''module''
            \<and> property_name left = Some ''exports'' then
           (if opt_ty right = Some ''Identifier'' then
              [\<lparr>fname = opt_name right, fkind = ''cjs-default''\<rparr>]
            else if opt_ty right = Some ''ObjectExpression'' then
              concat (map (\<lambda>prop. if truthy (opt_name (child ''key'' prop))
                                   then [\<lparr>fname = opt_name (child ''key'' prop), fkind = ''cjs''\<rparr>]
                                   else [])
                          (case right of None \<Rightarrow> [] | Some r \<Rightarrow> children_of ''properties'' r))
            else [\<lparr>fname = Some ''default'', fkind = ''cjs-default''\<rparr>])
         else if is_member left \<and> object_name left = Some ''exports''
                 \<and> truthy (property_name left) then
           [\<lparr>fname = property_name left, fkind = ''cjs''\<rparr>]
         else [])
      else [])"

definition extractExports :: "node \<Rightarrow> fact list" where
  "extractExports ast = concat (map (\<lambda>(n, anc). exports_visitor n) (traverse ast))"

text \<open>
  What the analysis sees of its environment: the working directory, the file system
  (\<open>fs.existsSync\<close>; \<open>fs.readFileSync\<close>, \<open>None\<close> where it throws), the parser
  (\<open>babelParser.parse\<close> with the \<open>typescript\<close> and \<open>jsx\<close> plugins switched by the two
  flags, \<open>None\<close> where it throws), the trees on which \<open>traverse\<close> throws, \<open>glob\<close>
  (pattern and directory) and the \<open>src\<close> values the script-tag pattern finds in an
  HTML text, in order.
\<close>

record world =
  process_cwd :: string
  existsSync :: "string \<Rightarrow> bool"
  readFileSync :: "string \<Rightarrow> string option"
  babel_parse :: "bool \<Rightarrow> bool \<Rightarrow> string \<Rightarrow> node option"
  traverse_throws :: "node \<Rightarrow> bool"
  glob :: "string \<Rightarrow> string \<Rightarrow> string list"
  script_src_matches :: "string \<Rightarrow> string list"

definition EXTENSIONS :: "string list" where
  "EXTENSIONS = [''.js'', ''.jsx'', ''.ts'', ''.tsx'', ''.mjs'', ''.cjs'']"

definition ALL_EXTENSIONS :: "string list" where
  "ALL_EXTENSIONS = EXTENSIONS @ [''.html'', ''.htm'']"

text \<open>
  \<open>parseFile\<close>: the read is outside the \<open>try\<close>, so an unreadable file throws (outer
  \<open>None\<close>); a text the parser refuses gives \<open>null\<close> (inner \<open>None\<close>).
\<close>

definition parseFile :: "world \<Rightarrow> string \<Rightarrow> node option option" where
  "parseFile w filePath =
     (case readFileSync w filePath of
        None \<Rightarrow> None
      | Some code \<Rightarrow>
          let ext = path_extname filePath;
              isTS = (ext = ''.ts'' \<or> ext = ''.tsx'');
              isJSX = (ext = ''.jsx'' \<or> ext = ''.tsx'')
          in Some (babel_parse w isTS (isJSX \<or> \<not> isTS) code))"

definition getCandidates :: "string \<Rightarrow> string list" where
  "getCandidates base =
     base # map (\<lambda>ext. base @ ext) EXTENSIONS
          @ map (\<lambda>ext. path_join base (''index'' @ ext)) EXTENSIONS"

definition resolveImport :: "world \<Rightarrow> string \<Rightarrow> string \<Rightarrow> string \<Rightarrow> string option" where
  "resolveImport w source fromFile rootDir =
     (if \<not> startsWith source ''.'' \<and> \<not> startsWith source ''/'' then None
      else
        let dir = path_dirname fromFile;
            resolved = path_resolve (process_cwd w) [dir, source]
        in (case find (existsSync w) (getCandidates resolved) of
              None \<Rightarrow> None
            | Some candidate \<Rightarrow> Some (path_relative (process_cwd w) rootDir candidate)))"

text \<open>An import specifier \<open>{ name, type }\<close> and an import fact \<open>{ source, resolved, specifiers }\<close>.\<close>

record spec =
  spname :: string
  spkind :: string

record import_fact =
  isource :: string
  resolved :: string
  specifiers :: "spec list"

definition import_specifier :: "node \<Rightarrow> spec" where
  "import_specifier s =
     (if ty s = ''ImportDefaultSpecifier'' then
        \<lparr>spname = js_text (opt_name (child ''local'' s)), spkind = ''default''\<rparr>
      else if ty s = ''ImportNamespaceSpecifier'' then
        \<lparr>spname = js_text (opt_name (child ''local'' s)), spkind = ''namespace''\<rparr>
      else
        \<lparr>spname = js_text (or_else (opt_name (child ''imported'' s)) (opt_name (child ''local'' s))),
         spkind = ''named''\<rparr>)"

text \<open>An import is kept only when its target resolves to a non-empty relative path.\<close>

definition resolved_import ::
  "world \<Rightarrow> string \<Rightarrow> string \<Rightarrow> string option \<Rightarrow> spec list \<Rightarrow> import_fact list" where
  "resolved_import w filePath rootDir source specs =
     (case source of
        None \<Rightarrow> []
      | Some src \<Rightarrow>
          (case resolveImport w src filePath rootDir of
             None \<Rightarrow> []
           | Some r \<Rightarrow> if r = [] then []
                       else [\<lparr>isource = src, resolved = r, specifiers = specs\<rparr>]))"

definition imports_visitor :: "world \<Rightarrow> string \<Rightarrow> string \<Rightarrow> node \<Rightarrow> import_fact list" where
  "imports_visitor w filePath rootDir n =
     (if ty n = ''ImportDeclaration'' then
        resolved_import w filePath rootDir (opt_strval (child ''source'' n))
          (map import_specifier (children_of ''specifiers'' n))
      else if ty n = ''CallExpression'' then
        (let args = children_of ''arguments'' n; callee = child ''callee'' n in
         (if opt_name callee = Some ''require'' \<and> length args = 1
             \<and> ty (hd args) = ''StringLiteral''
          then resolved_import w filePath rootDir (strval (info (hd args)))
                 [\<lparr>spname = ''default'', spkind = ''require''\<rparr>]
          else [])
         @
         (if opt_ty callee = Some ''Import'' \<and> length args \<ge> 1
             \<and> ty (hd args) = ''StringLiteral''
          then resolved_import w filePath rootDir (strval (info (hd args)))
                 [\<lparr>spname = ''default'', spkind = ''dynamic''\<rparr>]
          else []))
      else [])"

definition extractImports :: "world \<Rightarrow> node \<Rightarrow> string \<Rightarrow> string \<Rightarrow> import_fact list" where
  "extractImports w ast filePath rootDir =
     concat (map (\<lambda>(n, anc). imports_visitor w filePath rootDir n) (traverse ast))"

definition is_require_call :: "node option \<Rightarrow> bool" where
  "is_require_call init =
     (opt_ty init = Some ''CallExpression''
      \<and> (case init of None \<Rightarrow> False | Some i \<Rightarrow> opt_name (child ''callee'' i) = Some ''require''))"

definition globals_visitor :: "node \<Rightarrow> node list \<Rightarrow> fact list" where
  "globals_visitor n anc =
     (if ty n = ''FunctionDeclaration'' then
        (if parent_ty anc = Some ''Program''
         then [\<lparr>fname = opt_name (child ''id'' n), fkind = ''function''\<rparr>] else [])
      else if ty n = ''ClassDeclaration'' then
        (if parent_ty anc = Some ''Program'' \<and> child ''id'' n \<noteq> None
         then [\<lparr>fname = opt_name (child ''id'' n), fkind = ''class''\<rparr>] else [])
      else if ty n = ''VariableDeclaration'' then
        (if parent_ty anc = Some ''Program'' then
           concat (map (\<lambda>d.
               let dname = opt_name (child ''id'' d) in
               if \<not> truthy dname then []
               else if length (js_text dname) < 3 then []
               else if is_require_call (child ''init'' d) then []
               else if opt_ty (child ''id'' d) = Some ''ObjectPattern'' then []
               else [\<lparr>fname = dname, fkind = ''variable''\<rparr>])
             (children_of ''declarations'' n))
         else [])
      else [])"

definition extractGlobalDeclarations :: "node \<Rightarrow> fact list" where
  "extractGlobalDeclarations ast = concat (map (\<lambda>(n, anc). globals_visitor n anc) (traverse ast))"

text \<open>
  \<open>extractHtmlScriptRefs\<close>: of the \<open>src\<close> values found in the page, those that are not
  URLs and name an existing path, relative to the root.
\<close>

definition extractHtmlScriptRefs :: "world \<Rightarrow> string \<Rightarrow> string \<Rightarrow> string list option" where
  "extractHtmlScriptRefs w filePath rootDir =
     (case readFileSync w filePath of
        None \<Rightarrow> None
      | Some html \<Rightarrow>
          Some (concat (map (\<lambda>src.
            if startsWith src ''http://'' \<or> startsWith src ''https://'' \<or> startsWith src ''//''
            then []
            else
              let dir = path_dirname filePath;
                  resolved = path_resolve (process_cwd w) [dir, src]
              in if existsSync w resolved
                 then [path_relative (process_cwd w) rootDir resolved] else [])
            (script_src_matches w html))))"

section \<open>Symbols and call facts of one file\<close>

text \<open>
  White space as the pattern \<open>\s\<close> and \<open>trim\<close> know it, among the code units below 256.
\<close>

definition is_ws :: "char \<Rightarrow> bool" where
  "is_ws c = (of_char c \<in> {9, 10, 11, 12, 13, 32, 160 :: nat})"

text \<open>\<open>text.replace(/\s+/g, " ")\<close>; the flag says that the previous character was white space.\<close>

fun collapse_ws :: "bool \<Rightarrow> string \<Rightarrow> string" where
  "collapse_ws prev [] = []"
| "collapse_ws prev (c # cs) =
     (if is_ws c then (if prev then collapse_ws True cs else CHR '' '' # collapse_ws True cs)
      else c # collapse_ws False cs)"

definition trim :: "string \<Rightarrow> string" where
  "trim s = rev (dropWhile is_ws (rev (dropWhile is_ws s)))"

text \<open>\<open>s.slice(a, b)\<close> for offsets that are not negative.\<close>

definition slice :: "string \<Rightarrow> nat \<Rightarrow> nat \<Rightarrow> string" where
  "slice s a b = take (b - a) (drop a s)"

definition conditionToString :: "node option \<Rightarrow> string \<Rightarrow> string option" where
  "conditionToString node sourceCode =
     (case node of
        None \<Rightarrow> None
      | Some n \<Rightarrow>
          (case (pstart (info n), pend (info n)) of
             (Some a, Some b) \<Rightarrow>
               if sourceCode = [] then None
               else
                 let text = trim (collapse_ws False (slice sourceCode a b)) in
                 Some (if length text > 40 then slice text 0 37 @ ''...'' else text)
           | _ \<Rightarrow> None))"

text \<open>A condition annotation \<open>{ condition, branch }\<close>.\<close>

record cond =
  condition :: string
  branch :: string

text \<open>\<open>a >= b\<close> and \<open>a <= b\<close> on offsets; a comparison with \<open>undefined\<close> is false.\<close>

definition js_ge :: "nat option \<Rightarrow> nat option \<Rightarrow> bool" where
  "js_ge a b = (case (a, b) of (Some x, Some y) \<Rightarrow> x \<ge> y | _ \<Rightarrow> False)"

definition js_le :: "nat option \<Rightarrow> nat option \<Rightarrow> bool" where
  "js_le a b = (case (a, b) of (Some x, Some y) \<Rightarrow> x \<le> y | _ \<Rightarrow> False)"

definition is_function_boundary :: "node \<Rightarrow> bool" where
  "is_function_boundary s =
     (ty s = ''FunctionDeclaration'' \<or> ty s = ''ArrowFunctionExpression''
      \<or> ty s = ''FunctionExpression'' \<or> ty s = ''ClassMethod'')"

definition if_branch :: "node \<Rightarrow> node \<Rightarrow> string" where
  "if_branch call s =
     (case child ''alternate'' s of
        None \<Rightarrow> ''if''
      | Some alt \<Rightarrow>
          if js_ge (pstart (info call)) (pstart (info alt))
             \<and> js_le (pend (info call)) (pend (info alt))
          then ''else'' else ''if'')"

definition ternary_branch :: "node \<Rightarrow> node \<Rightarrow> string" where
  "ternary_branch call s =
     (case child ''alternate'' s of
        None \<Rightarrow> ''?''
      | Some alt \<Rightarrow> if js_ge (pstart (info call)) (pstart (info alt)) then '':'' else ''?'')"

text \<open>
  The walk of \<open>getEnclosingConditions\<close> up the paths above the call: the first
  conditional whose test has a text answers; a function boundary ends the search.
\<close>

fun enclosing_scan :: "node \<Rightarrow> string \<Rightarrow> node list \<Rightarrow> cond list" where
  "enclosing_scan call sourceCode [] = []"
| "enclosing_scan call sourceCode (s # rest) =
     (let condText = conditionToString (child ''test'' s) sourceCode in
      if ty s = ''IfStatement'' \<and> truthy condText then
        [\<lparr>condition = js_text condText, branch = if_branch call s\<rparr>]
      else if ty s = ''ConditionalExpression'' \<and> truthy condText then
        [\<lparr>condition = js_text condText, branch = ternary_branch call s\<rparr>]
      else if is_function_boundary s then []
      else enclosing_scan call sourceCode rest)"

text \<open>The paths above a node: its ancestors without the root.\<close>

definition getEnclosingConditions :: "node \<Rightarrow> node list \<Rightarrow> string \<Rightarrow> cond list" where
  "getEnclosingConditions call anc sourceCode = enclosing_scan call sourceCode (butlast anc)"

text \<open>A symbol and a call fact, with the fields the code gives them.\<close>

record symbol =
  sym_id :: string
  sym_name :: string
  sym_type :: string
  sym_file :: string
  startLine :: nat
  endLine :: nat
  params :: "string list option"
  exported :: "bool option"
  parent :: "string option"
  methods :: "string list option"
  superClass :: "string option"

record call =
  caller :: string
  callee :: string
  objectName :: "string option"
  conditions :: "cond list"
  line :: nat

definition param_name :: "node \<Rightarrow> string" where
  "param_name p =
     (if ty p = ''Identifier'' then js_text (nname (info p))
      else if ty p = ''AssignmentPattern'' \<and> opt_ty (child ''left'' p) = Some ''Identifier''
        then js_text (opt_name (child ''left'' p))
      else ''...'')"

definition method_param_name :: "node \<Rightarrow> string" where
  "method_param_name p =
     (if ty p = ''Identifier'' then js_text (nname (info p))
      else if ty p = ''AssignmentPattern'' \<and> opt_ty (child ''left'' p) = Some ''Identifier''
        then js_text (opt_name (child ''left'' p))
      else if ty p = ''RestElement'' \<and> opt_ty (child ''argument'' p) = Some ''Identifier''
        then ''...'' @ js_text (opt_name (child ''argument'' p))
      else ''...'')"

definition symbol_id :: "string \<Rightarrow> string \<Rightarrow> string" where
  "symbol_id relFile name = relFile @ ''::'' @ name"

text \<open>\<open>nodePath.parentPath?.parent\<close>: the parent's parent, when the parent has a path.\<close>

definition grandParent_ty :: "node list \<Rightarrow> string option" where
  "grandParent_ty anc = (case anc of p # g # _ \<Rightarrow> Some (ty g) | _ \<Rightarrow> None)"

text \<open>The members of a class body that are methods with a plain name.\<close>

definition class_methods :: "node \<Rightarrow> node list" where
  "class_methods n =
     filter (\<lambda>member. ty member = ''ClassMethod'' \<and> truthy (opt_name (child ''key'' member)))
       (case child ''body'' n of None \<Rightarrow> [] | Some b \<Rightarrow> children_of ''body'' b)"

definition method_symbol :: "string \<Rightarrow> string \<Rightarrow> node \<Rightarrow> symbol" where
  "method_symbol relFile className member =
     \<lparr>sym_id = symbol_id relFile (className @ ''.'' @ js_text (opt_name (child ''key'' member))),
      sym_name = className @ ''.'' @ js_text (opt_name (child ''key'' member)),
      sym_type = ''method'',
      sym_file = relFile,
      startLine = start_line member,
      endLine = end_line member,
      params = Some (map method_param_name (children_of ''params'' member)),
      exported = None,
      parent = Some (symbol_id relFile className),
      methods = None,
      superClass = None\<rparr>"

text \<open>The visitors of \<open>extractSymbols\<close> that push symbols, one per node type.\<close>

definition function_symbols :: "string \<Rightarrow> node \<Rightarrow> node list \<Rightarrow> symbol list" where
  "function_symbols relFile n anc =
     (case child ''id'' n of
        None \<Rightarrow> []
      | Some i \<Rightarrow>
          [\<lparr>sym_id = symbol_id relFile (js_text (nname (info i))),
            sym_name = js_text (nname (info i)),
            sym_type = ''function'',
            sym_file = relFile,
            startLine = start_line n,
            endLine = end_line n,
            params = Some (map param_name (children_of ''params'' n)),
            exported = Some (parent_ty anc = Some ''ExportNamedDeclaration''
                             \<or> parent_ty anc = Some ''ExportDefaultDeclaration''),
            parent = None, methods = None, superClass = None\<rparr>])"

definition arrow_symbols :: "string \<Rightarrow> node \<Rightarrow> node list \<Rightarrow> symbol list" where
  "arrow_symbols relFile n anc =
     (let name = (case anc of [] \<Rightarrow> None | p # _ \<Rightarrow> opt_name (child ''id'' p)) in
      if parent_ty anc \<noteq> Some ''VariableDeclarator'' \<or> \<not> truthy name then []
      else
        [\<lparr>sym_id = symbol_id relFile (js_text name),
          sym_name = js_text name,
          sym_type = ''function'',
          sym_file = relFile,
          startLine = start_line n,
          endLine = end_line n,
          params = Some (map param_name (children_of ''params'' n)),
          exported = Some (grandParent_ty anc = Some ''ExportNamedDeclaration''),
          parent = None, methods = None, superClass = None\<rparr>])"

definition class_symbols :: "string \<Rightarrow> node \<Rightarrow> node list \<Rightarrow> symbol list" where
  "class_symbols relFile n anc =
     (case child ''id'' n of
        None \<Rightarrow> []
      | Some i \<Rightarrow>
          let className = js_text (nname (info i)) in
          map (method_symbol relFile className) (class_methods n) @
            [\<lparr>sym_id = symbol_id relFile className,
              sym_name = className,
              sym_type = ''class'',
              sym_file = relFile,
              startLine = start_line n,
              endLine = end_line n,
              params = None,
              exported = Some (parent_ty anc = Some ''ExportNamedDeclaration''
                               \<or> parent_ty anc = Some ''ExportDefaultDeclaration''),
              parent = None,
              methods = Some (map (\<lambda>member. js_text (opt_name (child ''key'' member)))
                                  (class_methods n)),
              superClass = (if truthy (opt_name (child ''superClass'' n))
                            then opt_name (child ''superClass'' n) else None)\<rparr>])"

definition variable_symbol :: "string \<Rightarrow> node \<Rightarrow> node list \<Rightarrow> node \<Rightarrow> symbol list" where
  "variable_symbol relFile n anc d =
     (let dname = opt_name (child ''id'' d); init = child ''init'' d in
      if \<not> truthy dname then []
      else if length (js_text dname) < 2 then []
      else if is_require_call init then []
      else if opt_ty init = Some ''ArrowFunctionExpression'' then []
      else if opt_ty init = Some ''FunctionExpression'' then []
      else
        [\<lparr>sym_id = symbol_id relFile (js_text dname),
          sym_name = js_text dname,
          sym_type = ''variable'',
          sym_file = relFile,
          startLine = (if start_line d \<noteq> 0 then start_line d else start_line n),
          endLine = (if end_line d \<noteq> 0 then end_line d else end_line n),
          params = None,
          exported = Some (parent_ty anc = Some ''ExportNamedDeclaration''),
          parent = None, methods = None, superClass = None\<rparr>])"

definition variable_symbols :: "string \<Rightarrow> node \<Rightarrow> node list \<Rightarrow> symbol list" where
  "variable_symbols relFile n anc =
     (if parent_ty anc \<noteq> Some ''Program'' \<and> parent_ty anc \<noteq> Some ''ExportNamedDeclaration''
      then []
      else concat (map (variable_symbol relFile n anc) (children_of ''declarations'' n)))"

definition type_symbols :: "string \<Rightarrow> string \<Rightarrow> node \<Rightarrow> node list \<Rightarrow> symbol list" where
  "type_symbols k relFile n anc =
     (case child ''id'' n of
        None \<Rightarrow> []
      | Some i \<Rightarrow>
          [\<lparr>sym_id = symbol_id relFile (js_text (nname (info i))),
            sym_name = js_text (nname (info i)),
            sym_type = k,
            sym_file = relFile,
            startLine = start_line n,
            endLine = end_line n,
            params = None,
            exported = Some (parent_ty anc = Some ''ExportNamedDeclaration''),
            parent = None, methods = None, superClass = None\<rparr>])"

definition symbols_visitor :: "string \<Rightarrow> node \<Rightarrow> node list \<Rightarrow> symbol list" where
  "symbols_visitor relFile n anc =
     (if ty n = ''FunctionDeclaration'' then function_symbols relFile n anc
      else if ty n = ''ArrowFunctionExpression'' then arrow_symbols relFile n anc
      else if ty n = ''ClassDeclaration'' then class_symbols relFile n anc
      else if ty n = ''VariableDeclaration'' then variable_symbols relFile n anc
      else if ty n = ''TSTypeAliasDeclaration'' then type_symbols ''type'' relFile n anc
      else if ty n = ''TSInterfaceDeclaration'' then type_symbols ''interface'' relFile n anc
      else [])"

text \<open>
  The search for the function a call belongs to. The list is the call followed by
  its ancestors; its last element, the root, has no path and ends the search.
\<close>

definition enclosing_class_name :: "node list \<Rightarrow> string option" where
  "enclosing_class_name paths =
     (case find (\<lambda>c. ty c = ''ClassDeclaration'') paths of
        None \<Rightarrow> None
      | Some c \<Rightarrow> opt_name (child ''id'' c))"

fun find_caller :: "node list \<Rightarrow> string option" where
  "find_caller (s # p # rest) =
     (if ty s = ''FunctionDeclaration'' \<and> child ''id'' s \<noteq> None then
        Some (js_text (opt_name (child ''id'' s)))
      else if (ty s = ''ArrowFunctionExpression'' \<or> ty s = ''FunctionExpression'')
              \<and> ty p = ''VariableDeclarator'' \<and> truthy (opt_name (child ''id'' p)) then
        Some (js_text (opt_name (child ''id'' p)))
      else if ty s = ''ClassMethod'' \<and> truthy (opt_name (child ''key'' s)) then
        (let className = enclosing_class_name (butlast (p # rest)) in
         if truthy className
         then Some (js_text className @ ''.'' @ js_text (opt_name (child ''key'' s)))
         else None)
      else find_caller (p # rest))"
| "find_caller _ = None"

definition calls_visitor :: "string \<Rightarrow> node \<Rightarrow> node list \<Rightarrow> call list" where
  "calls_visitor sourceCode n anc =
     (if ty n = ''CallExpression'' then
        (let callee = child ''callee'' n;
             calledName =
               (if opt_ty callee = Some ''Identifier'' then opt_name callee
                else if is_member callee \<and> truthy (property_name callee) then property_name callee
                else None);
             objName =
               (if opt_ty callee \<noteq> Some ''Identifier'' \<and> is_member callee
                   \<and> truthy (property_name callee)
                   \<and> (case callee of None \<Rightarrow> False
                       | Some c \<Rightarrow> opt_ty (child ''object'' c) = Some ''Identifier'')
                then object_name callee else None)
         in if \<not> truthy calledName \<or> calledName = Some ''require'' then []
            else
              (case find_caller (n # anc) of
                 None \<Rightarrow> []
               | Some c \<Rightarrow>
                   [\<lparr>caller = c,
                     callee = js_text calledName,
                     objectName = objName,
                     conditions = getEnclosingConditions n anc sourceCode,
                     line = start_line n\<rparr>]))
      else [])"

definition extractSymbols :: "node \<Rightarrow> string \<Rightarrow> string \<Rightarrow> symbol list \<times> call list" where
  "extractSymbols ast relFile sourceCode =
     (concat (map (\<lambda>(n, anc). symbols_visitor relFile n anc) (traverse ast)),
      concat (map (\<lambda>(n, anc). calls_visitor sourceCode n anc) (traverse ast)))"

section \<open>The file graph (\<open>analyzeCodebase\<close>)\<close>

text \<open>\<open>[...new Set(xs)]\<close>: the first occurrence of every element, in order.\<close>

fun dedupe_from :: "string list \<Rightarrow> string list \<Rightarrow> string list" where
  "dedupe_from seen [] = []"
| "dedupe_from seen (x # xs) =
     (if x \<in> set seen then dedupe_from seen xs else x # dedupe_from (x # seen) xs)"

definition dedupe :: "string list \<Rightarrow> string list" where
  "dedupe xs = dedupe_from [] xs"

text \<open>The default order of \<open>sort()\<close> on strings: code unit by code unit.\<close>

fun str_less :: "string \<Rightarrow> string \<Rightarrow> bool" where
  "str_less [] [] = False"
| "str_less [] (y # ys) = True"
| "str_less (x # xs) [] = False"
| "str_less (x # xs) (y # ys) =
     ((of_char x :: nat) < of_char y \<or> (x = y \<and> str_less xs ys))"

fun js_insert :: "string \<Rightarrow> string list \<Rightarrow> string list" where
  "js_insert x [] = [x]"
| "js_insert x (y # ys) = (if str_less x y then x # y # ys else y # js_insert x ys)"

definition js_sort :: "string list \<Rightarrow> string list" where
  "js_sort xs = foldr js_insert xs []"

text \<open>\<open>code.split("\n").length\<close>.\<close>

definition line_count :: "string \<Rightarrow> nat" where
  "line_count code = length (split_on (CHR 0x0A) code)"

text \<open>
  \<open>fileData\<close>, \<open>edgeMap\<close> and the other plain objects are lists of their own
  properties in insertion order (no key of theirs is an array index). Reading a
  key that is not an own property finds what \<open>Object.prototype\<close> has under that name.
\<close>

definition object_prototype_names :: "string list" where
  "object_prototype_names =
     [''constructor'', ''__defineGetter__'', ''__defineSetter__'', ''hasOwnProperty'',
      ''__lookupGetter__'', ''__lookupSetter__'', ''isPrototypeOf'', ''propertyIsEnumerable'',
      ''toString'', ''valueOf'', ''__proto__'', ''toLocaleString'']"

datatype 'a lookup = Own 'a | Inherited | Absent

definition get_prop :: "(string \<times> 'a) list \<Rightarrow> string \<Rightarrow> 'a lookup" where
  "get_prop obj k =
     (case map_of obj k of
        Some v \<Rightarrow> Own v
      | None \<Rightarrow> if k \<in> set object_prototype_names then Inherited else Absent)"

text \<open>\<open>obj[k] = v\<close>: a new key goes last, a key already there keeps its place.\<close>

definition set_prop :: "(string \<times> 'a) list \<Rightarrow> string \<Rightarrow> 'a \<Rightarrow> (string \<times> 'a) list" where
  "set_prop obj k v =
     (if k \<in> fst ` set obj then map (\<lambda>(k', v'). if k' = k then (k', v) else (k', v')) obj
      else obj @ [(k, v)])"

record file_data =
  fd_exports :: "fact list"
  fd_imports :: "import_fact list"
  fd_lines :: nat
  fd_globals :: "fact list option"
  fd_htmlScriptRefs :: "string list option"

record file_node =
  n_id :: string
  n_exports :: "fact list"
  n_lines :: nat
  n_folder :: string
  n_extension :: string
  n_incomingCount :: nat

record file_edge =
  e_source :: string
  e_target :: string
  e_weight :: nat
  e_references :: "string list"

record file_graph =
  g_nodes :: "file_node list"
  g_edges :: "file_edge list"
  g_folders :: "string list"
  g_extensions :: "string list"

definition is_html :: "string \<Rightarrow> bool" where
  "is_html file = (path_extname file = ''.html'' \<or> path_extname file = ''.htm'')"

text \<open>The first pass over one file; \<open>None\<close> when a read or the traversal throws.\<close>

definition first_pass_file :: "world \<Rightarrow> string \<Rightarrow> string \<Rightarrow> file_data option" where
  "first_pass_file w rootDir file =
     (let fullPath = path_join rootDir file in
      if is_html file then
        (case readFileSync w fullPath of
           None \<Rightarrow> None
         | Some code \<Rightarrow>
             (case extractHtmlScriptRefs w fullPath rootDir of
                None \<Rightarrow> None
              | Some scriptRefs \<Rightarrow>
                  Some \<lparr>fd_exports = [], fd_imports = [], fd_lines = line_count code,
                        fd_globals = Some [], fd_htmlScriptRefs = Some scriptRefs\<rparr>))
      else
        (case parseFile w fullPath of
           None \<Rightarrow> None
         | Some None \<Rightarrow>
             Some \<lparr>fd_exports = [], fd_imports = [], fd_lines = 0,
                   fd_globals = None, fd_htmlScriptRefs = None\<rparr>
         | Some (Some ast) \<Rightarrow>
             (case readFileSync w fullPath of
                None \<Rightarrow> None
              | Some code \<Rightarrow>
                  if traverse_throws w ast then None
                  else Some \<lparr>fd_exports = extractExports ast, fd_imports = [],
                             fd_lines = line_count code,
                             fd_globals = None, fd_htmlScriptRefs = None\<rparr>)))"

fun first_pass ::
  "world \<Rightarrow> string \<Rightarrow> string list \<Rightarrow> (string \<times> file_data) list
   \<Rightarrow> (string \<times> file_data) list option" where
  "first_pass w rootDir [] fileData = Some fileData"
| "first_pass w rootDir (file # files) fileData =
     (case first_pass_file w rootDir file of
        None \<Rightarrow> None
      | Some d \<Rightarrow> first_pass w rootDir files (set_prop fileData file d))"

text \<open>The second pass: imports and top-level declarations of the files that parse.\<close>

fun second_pass ::
  "world \<Rightarrow> string \<Rightarrow> string list \<Rightarrow> (string \<times> file_data) list
   \<Rightarrow> (string \<times> file_data) list option" where
  "second_pass w rootDir [] fileData = Some fileData"
| "second_pass w rootDir (file # files) fileData =
     (if is_html file then second_pass w rootDir files fileData
      else
        let fullPath = path_join rootDir file in
        (case parseFile w fullPath of
           None \<Rightarrow> None
         | Some None \<Rightarrow> second_pass w rootDir files fileData
         | Some (Some ast) \<Rightarrow>
             if traverse_throws w ast then None
             else
             second_pass w rootDir files
               (map (\<lambda>(k, d). if k = file
                      then (k, d\<lparr>fd_imports := extractImports w ast fullPath rootDir,
                                 fd_globals := Some (extractGlobalDeclarations ast)\<rparr>)
                      else (k, d))
                    fileData)))"

text \<open>\<open>fileData[file]\<close> for a scanned file, which is always an own property.\<close>

definition data_of :: "(string \<times> file_data) list \<Rightarrow> string \<Rightarrow> file_data option" where
  "data_of fileData file = map_of fileData file"

text \<open>The node of one file: its exports, then the declarations whose name no export has.\<close>

definition make_node :: "string \<Rightarrow> file_data \<Rightarrow> file_node" where
  "make_node file d =
     \<lparr>n_id = file,
      n_exports = fd_exports d
        @ filter (\<lambda>g. fname g \<notin> set (map fname (fd_exports d)))
                 (case fd_globals d of None \<Rightarrow> [] | Some gs \<Rightarrow> gs),
      n_lines = fd_lines d,
      n_folder = path_dirname file,
      n_extension = path_extname file,
      n_incomingCount = 0\<rparr>"

definition build_nodes :: "string list \<Rightarrow> (string \<times> file_data) list \<Rightarrow> file_node list" where
  "build_nodes uniqueFiles fileData =
     concat (map (\<lambda>file. case data_of fileData file of
                            None \<Rightarrow> []
                          | Some d \<Rightarrow> [make_node file d])
                 uniqueFiles)"

text \<open>\<open>[a, b].sort().join("|||")\<close>.\<close>

definition pair_key :: "string \<Rightarrow> string \<Rightarrow> string" where
  "pair_key a b = (if str_less b a then b @ ''|||'' @ a else a @ ''|||'' @ b)"

text \<open>
  One contribution to \<open>edgeMap\<close>: the record of the pair is created with weight 0
  when the key is new, then the weight grows and the names are appended.
\<close>

definition add_edge ::
  "(string \<times> file_edge) list \<Rightarrow> string \<Rightarrow> string \<Rightarrow> nat \<Rightarrow> string list
   \<Rightarrow> (string \<times> file_edge) list" where
  "add_edge edgeMap file target n names =
     (let key = pair_key file target;
          em = (if key \<in> fst ` set edgeMap then edgeMap
                else edgeMap @ [(key, \<lparr>e_source = file, e_target = target,
                                        e_weight = 0, e_references = []\<rparr>)])
      in map (\<lambda>(k, e). if k = key
                then (k, e\<lparr>e_weight := e_weight e + n, e_references := e_references e @ names\<rparr>)
                else (k, e))
             em)"

text \<open>\<open>fileData[k]\<close> is truthy: an own property, or a name every object inherits.\<close>

definition known_file :: "(string \<times> file_data) list \<Rightarrow> string \<Rightarrow> bool" where
  "known_file fileData k = (get_prop fileData k \<noteq> Absent)"

definition import_edges_of ::
  "(string \<times> file_data) list \<Rightarrow> string \<Rightarrow> (string \<times> file_edge) list
   \<Rightarrow> (string \<times> file_edge) list" where
  "import_edges_of fileData file edgeMap =
     foldl (\<lambda>em imp.
              if resolved imp = [] \<or> \<not> known_file fileData (resolved imp) then em
              else add_edge em file (resolved imp) (length (specifiers imp))
                     (map spname (specifiers imp)))
           edgeMap
           (case data_of fileData file of None \<Rightarrow> [] | Some d \<Rightarrow> fd_imports d)"

definition script_edges_of ::
  "(string \<times> file_data) list \<Rightarrow> string \<Rightarrow> (string \<times> file_edge) list
   \<Rightarrow> (string \<times> file_edge) list" where
  "script_edges_of fileData file edgeMap =
     foldl (\<lambda>em scriptFile.
              if \<not> known_file fileData scriptFile then em
              else add_edge em file scriptFile 1 [''script-src''])
           edgeMap
           (case data_of fileData file of
              None \<Rightarrow> []
            | Some d \<Rightarrow> (case fd_htmlScriptRefs d of None \<Rightarrow> [] | Some refs \<Rightarrow> refs))"

definition build_edges :: "string list \<Rightarrow> (string \<times> file_data) list \<Rightarrow> file_edge list" where
  "build_edges uniqueFiles fileData =
     map snd
       (foldl (\<lambda>em file. script_edges_of fileData file em)
          (foldl (\<lambda>em file. import_edges_of fileData file em) [] uniqueFiles)
          uniqueFiles)"

text \<open>The number of import facts of the scanned files that name the file as their target.\<close>

definition incoming_count :: "string list \<Rightarrow> (string \<times> file_data) list \<Rightarrow> string \<Rightarrow> nat" where
  "incoming_count uniqueFiles fileData file =
     length (filter (\<lambda>imp. resolved imp = file)
       (concat (map (\<lambda>f. case data_of fileData f of None \<Rightarrow> [] | Some d \<Rightarrow> fd_imports d)
                    uniqueFiles)))"

definition scan :: "world \<Rightarrow> string \<Rightarrow> string list \<Rightarrow> string list" where
  "scan w rootDir exts = dedupe (concat (map (\<lambda>ext. glob w (''**/*'' @ ext) rootDir) exts))"

definition build_graph :: "string list \<Rightarrow> (string \<times> file_data) list \<Rightarrow> file_graph" where
  "build_graph uniqueFiles fileData =
     (let nodes = map (\<lambda>n. n\<lparr>n_incomingCount := incoming_count uniqueFiles fileData (n_id n)\<rparr>)
                      (build_nodes uniqueFiles fileData)
      in \<lparr>g_nodes = nodes,
          g_edges = build_edges uniqueFiles fileData,
          g_folders = js_sort (dedupe (map n_folder nodes)),
          g_extensions = js_sort (dedupe (map n_extension nodes))\<rparr>)"

text \<open>The whole run; \<open>None\<close> when a read or a traversal throws.\<close>

definition analyzeCodebase :: "world \<Rightarrow> string \<Rightarrow> file_graph option" where
  "analyzeCodebase w rootDir =
     (let uniqueFiles = scan w rootDir ALL_EXTENSIONS in
      case first_pass w rootDir uniqueFiles [] of
        None \<Rightarrow> None
      | Some fd1 \<Rightarrow>
          (case second_pass w rootDir uniqueFiles fd1 of
             None \<Rightarrow> None
           | Some fileData \<Rightarrow> Some (build_graph uniqueFiles fileData)))"

section \<open>The symbol graph (\<open>analyzeSymbols\<close>)\<close>

text \<open>
  The \<open>conditions\<close> of a call fact is an array, and an edge made from the call holds
  that very array, not a copy. The arrays live in a store; an address is an index
  into it, and a new array goes at the end.
\<close>

type_synonym store = "cond list list"

definition store_get :: "store \<Rightarrow> nat \<Rightarrow> cond list" where
  "store_get h a = (if a < length h then h ! a else [])"

text \<open>An edge object \<open>{ source, target, type, conditions? }\<close> as the run holds it.\<close>

record sym_edge =
  se_source :: string
  se_target :: string
  se_type :: string
  se_conditions :: "nat option"

text \<open>An entry \<open>{ localName, importedName, fromFile }\<close> of \<open>fileImports\<close>.\<close>

record import_ref =
  localName :: string
  importedName :: string
  fromFile :: string

record run_state =
  allSymbols :: "symbol list"
  allEdges :: "sym_edge list"
  fileImports :: "(string \<times> import_ref list) list"
  arrays :: store

text \<open>
  The call facts of one extraction with the addresses of their \<open>conditions\<close>
  arrays: every call of \<open>getEnclosingConditions\<close> returns a new array.
\<close>

definition with_arrays :: "store \<Rightarrow> call list \<Rightarrow> (call \<times> nat) list \<times> store" where
  "with_arrays h cs = (zip cs [length h ..< length h + length cs], h @ map conditions cs)"

text \<open>\<open>call.conditions && call.conditions.length > 0 ? call.conditions : undefined\<close>.\<close>

definition conds_of_call :: "call \<times> nat \<Rightarrow> nat option" where
  "conds_of_call ca = (if conditions (fst ca) \<noteq> [] then Some (snd ca) else None)"

text \<open>\<open>symbolNames\<close>, a \<open>Map\<close> from name to id: a later symbol of the same name wins.\<close>

definition symbolNames_get :: "symbol list \<Rightarrow> string \<Rightarrow> string option" where
  "symbolNames_get symbols name = map_of (rev (map (\<lambda>s. (sym_name s, sym_id s)) symbols)) name"

text \<open>\<open>methodsByName.get(m) || []\<close>: the method symbols whose last name segment is \<open>m\<close>.\<close>

definition methodsByName_get :: "symbol list \<Rightarrow> string \<Rightarrow> symbol list" where
  "methodsByName_get symbols m =
     filter (\<lambda>s. sym_type s = ''method'' \<and> CHR ''.'' \<in> set (sym_name s)
                 \<and> last (split_on (CHR ''.'') (sym_name s)) = m)
            symbols"

definition intra_callee :: "symbol list \<Rightarrow> call \<Rightarrow> string option" where
  "intra_callee symbols c =
     (let direct = symbolNames_get symbols (callee c) in
      if \<not> truthy direct \<and> truthy (objectName c) then
        (let candidates = methodsByName_get symbols (callee c) in
         if length candidates = 1 then Some (sym_id (hd candidates))
         else if length candidates > 1 then
           (case find (\<lambda>s. sym_name s = js_text (objectName c) @ ''.'' @ callee c) candidates of
              Some exact \<Rightarrow> Some (sym_id exact)
            | None \<Rightarrow> Some (sym_id (hd candidates)))
         else direct)
      else direct)"

definition intra_edge :: "symbol list \<Rightarrow> call \<times> nat \<Rightarrow> sym_edge list" where
  "intra_edge symbols ca =
     (let callerId = symbolNames_get symbols (caller (fst ca)) in
      if \<not> truthy callerId then []
      else
        let calleeId = intra_callee symbols (fst ca) in
        if truthy callerId \<and> truthy calleeId \<and> callerId \<noteq> calleeId then
          [\<lparr>se_source = js_text callerId, se_target = js_text calleeId, se_type = ''calls'',
            se_conditions = conds_of_call ca\<rparr>]
        else [])"

definition import_refs :: "import_fact \<Rightarrow> import_ref list" where
  "import_refs imp =
     (if resolved imp = [] then []
      else map (\<lambda>sp. \<lparr>localName = spname sp,
                       importedName = (if spkind sp = ''default'' then ''default'' else spname sp),
                       fromFile = resolved imp\<rparr>)
               (specifiers imp))"

text \<open>
  The symbols a run that returns takes from one scanned file: none unless the file
  parses. (In a run that returns no traversal has thrown.)
\<close>

definition extracted_symbols :: "world \<Rightarrow> string \<Rightarrow> string \<Rightarrow> symbol list" where
  "extracted_symbols w rootDir file =
     (case parseFile w (path_join rootDir file) of
        Some (Some ast) \<Rightarrow>
          (case readFileSync w (path_join rootDir file) of
             Some sourceCode \<Rightarrow> fst (extractSymbols ast file sourceCode)
           | None \<Rightarrow> [])
      | _ \<Rightarrow> [])"

text \<open>The first pass over one file; \<open>None\<close> when a read or the traversal throws.\<close>

definition symbols_first_pass_file :: "world \<Rightarrow> string \<Rightarrow> string \<Rightarrow> run_state \<Rightarrow> run_state option" where
  "symbols_first_pass_file w rootDir file st =
     (let fullPath = path_join rootDir file in
      case parseFile w fullPath of
        None \<Rightarrow> None
      | Some None \<Rightarrow> Some st
      | Some (Some ast) \<Rightarrow>
          (case readFileSync w fullPath of
             None \<Rightarrow> None
           | Some sourceCode \<Rightarrow>
               if traverse_throws w ast then None
               else
               let (symbols, calls) = extractSymbols ast file sourceCode;
                   (located, h) = with_arrays (arrays st) calls
               in Some \<lparr>allSymbols = allSymbols st @ symbols,
                        allEdges = allEdges st @ concat (map (intra_edge symbols) located),
                        fileImports = set_prop (fileImports st) file
                          (concat (map import_refs (extractImports w ast fullPath rootDir))),
                        arrays = h\<rparr>))"

fun symbols_first_pass :: "world \<Rightarrow> string \<Rightarrow> string list \<Rightarrow> run_state \<Rightarrow> run_state option" where
  "symbols_first_pass w rootDir [] st = Some st"
| "symbols_first_pass w rootDir (file # files) st =
     (case symbols_first_pass_file w rootDir file st of
        None \<Rightarrow> None
      | Some st' \<Rightarrow> symbols_first_pass w rootDir files st')"

text \<open>
  \<open>symbolByFile\<close>: file, then symbol name, to symbol id. The table of a file is a
  plain object, and assigning a string to its \<open>__proto__\<close> does nothing: a symbol of
  that name gets no entry.
\<close>

type_synonym symbol_index = "(string \<times> (string \<times> string) list) list"

definition index_symbol :: "symbol_index \<Rightarrow> symbol \<Rightarrow> symbol_index" where
  "index_symbol symbolByFile s =
     (let tbl = (case map_of symbolByFile (sym_file s) of None \<Rightarrow> [] | Some t \<Rightarrow> t)
      in set_prop symbolByFile (sym_file s)
           (if sym_name s = ''__proto__'' then tbl else set_prop tbl (sym_name s) (sym_id s)))"

definition build_symbolByFile :: "symbol list \<Rightarrow> symbol_index" where
  "build_symbolByFile syms = foldl index_symbol [] syms"

text \<open>
  The value of \<open>t[k1] || t[k2] || ...\<close> on a table of ids: an id, a value inherited
  from \<open>Object.prototype\<close> (truthy, and no symbol id), or nothing.
\<close>

datatype target = Found string | NativeValue | NoTarget

fun lookup_target :: "(string \<times> string) list \<Rightarrow> string list \<Rightarrow> target" where
  "lookup_target tbl [] = NoTarget"
| "lookup_target tbl (k # ks) =
     (case get_prop tbl k of
        Own i \<Rightarrow> if i \<noteq> [] then Found i else lookup_target tbl ks
      | Inherited \<Rightarrow> NativeValue
      | Absent \<Rightarrow> lookup_target tbl ks)"

text \<open>
  The edges of the second pass. Where a lookup answers with an inherited value, the
  edge the code pushes has an end that is not a string; the final filter removes
  such an edge, and it is left out here. An inherited value taken for an import
  record has no \<open>fromFile\<close>, and the call is skipped.
\<close>

definition import_link_edges :: "symbol_index \<Rightarrow> string \<Rightarrow> import_ref list \<Rightarrow> sym_edge list" where
  "import_link_edges symbolByFile file imports =
     concat (map (\<lambda>imp.
        case get_prop symbolByFile (fromFile imp) of
          Own targetLookup \<Rightarrow>
            (case lookup_target targetLookup [importedName imp, localName imp] of
               Found targetId \<Rightarrow>
                 [\<lparr>se_source = file @ ''::'' @ localName imp, se_target = targetId,
                   se_type = ''imports'', se_conditions = None\<rparr>]
             | _ \<Rightarrow> [])
        | _ \<Rightarrow> [])
      imports)"

definition call_edge :: "string \<Rightarrow> string \<Rightarrow> call \<times> nat \<Rightarrow> sym_edge" where
  "call_edge callerId targetId ca =
     \<lparr>se_source = callerId, se_target = targetId, se_type = ''calls'',
      se_conditions = conds_of_call ca\<rparr>"

definition imported_target_edges ::
  "symbol_index \<Rightarrow> string \<Rightarrow> import_ref \<Rightarrow> string list \<Rightarrow> call \<times> nat \<Rightarrow> sym_edge list" where
  "imported_target_edges symbolByFile callerId imp names ca =
     (case get_prop symbolByFile (fromFile imp) of
        Own targetLookup \<Rightarrow>
          (case lookup_target targetLookup names of
             Found targetId \<Rightarrow> [call_edge callerId targetId ca]
           | _ \<Rightarrow> [])
      | _ \<Rightarrow> [])"

definition residual_edges :: "symbol_index \<Rightarrow> string \<Rightarrow> call \<times> nat \<Rightarrow> sym_edge list" where
  "residual_edges symbolByFile callerId ca =
     concat (map (\<lambda>(targetFile, targetLookup).
        concat (map (\<lambda>(symName, targetId).
            if endsWith symName (''.'' @ callee (fst ca)) \<and> CHR ''.'' \<in> set symName
               \<and> targetId \<noteq> [] \<and> targetId \<noteq> callerId
            then [call_edge callerId targetId ca] else [])
          targetLookup))
      symbolByFile)"

text \<open>
  \<open>localImportMap\<close> is a plain object of import records: its own properties, and the
  record that an import under the local name \<open>__proto__\<close> has made its prototype, if
  there is one. Reading \<open>__proto__\<close> then gives that record; reading one of the three
  field names of a record gives a string inherited from it, which like every other
  inherited value has no \<open>fromFile\<close>.
\<close>

type_synonym import_map = "(string \<times> import_ref) list \<times> import_ref option"

definition assign_import :: "import_map \<Rightarrow> import_ref \<Rightarrow> import_map" where
  "assign_import m imp =
     (if localName imp = ''__proto__'' then (fst m, Some imp)
      else (set_prop (fst m) (localName imp) imp, snd m))"

definition get_import :: "import_map \<Rightarrow> string \<Rightarrow> import_ref lookup" where
  "get_import m k =
     (case map_of (fst m) k of
        Some imp \<Rightarrow> Own imp
      | None \<Rightarrow>
          (case snd m of
             None \<Rightarrow> if k \<in> set object_prototype_names then Inherited else Absent
           | Some p \<Rightarrow>
               if k = ''__proto__'' then Own p
               else if k \<in> set [''localName'', ''importedName'', ''fromFile'']
                       \<or> k \<in> set object_prototype_names then Inherited
               else Absent))"

definition cross_call_edges ::
  "symbol_index \<Rightarrow> string \<Rightarrow> import_map \<Rightarrow> call \<times> nat \<Rightarrow> sym_edge list" where
  "cross_call_edges symbolByFile file localImportMap ca =
     (let c = fst ca;
          callerId = (case get_prop symbolByFile file of
                        Own callerSymbols \<Rightarrow> lookup_target callerSymbols [caller c]
                      | _ \<Rightarrow> NoTarget)
      in case callerId of
           Found cid \<Rightarrow>
             (case get_import localImportMap (callee c) of
                Own imp \<Rightarrow>
                  imported_target_edges symbolByFile cid imp [importedName imp, localName imp] ca
              | Inherited \<Rightarrow> []
              | Absent \<Rightarrow>
                  if truthy (objectName c) then
                    (case get_import localImportMap (js_text (objectName c)) of
                       Own imp \<Rightarrow>
                         imported_target_edges symbolByFile cid imp
                           [importedName imp @ ''.'' @ callee c,
                            localName imp @ ''.'' @ callee c,
                            callee c] ca
                     | Inherited \<Rightarrow> []
                     | Absent \<Rightarrow> residual_edges symbolByFile cid ca)
                  else [])
         | _ \<Rightarrow> [])"

definition symbols_second_pass_file ::
  "world \<Rightarrow> string \<Rightarrow> symbol_index \<Rightarrow> string \<Rightarrow> run_state \<Rightarrow> run_state option" where
  "symbols_second_pass_file w rootDir symbolByFile file st =
     (let imports = (case get_prop (fileImports st) file of Own l \<Rightarrow> l | _ \<Rightarrow> []);
          linked = allEdges st @ import_link_edges symbolByFile file imports;
          fullPath = path_join rootDir file
      in case parseFile w fullPath of
           None \<Rightarrow> None
         | Some None \<Rightarrow> Some (st\<lparr>allEdges := linked\<rparr>)
         | Some (Some ast) \<Rightarrow>
             (case readFileSync w fullPath of
                None \<Rightarrow> None
              | Some sourceCode \<Rightarrow>
                  if traverse_throws w ast then None
                  else
                  let (located, h) = with_arrays (arrays st) (snd (extractSymbols ast file sourceCode));
                      localImportMap = foldl assign_import ([], None) imports
                  in Some (st\<lparr>allEdges := linked
                                  @ concat (map (cross_call_edges symbolByFile file localImportMap) located),
                               arrays := h\<rparr>)))"

fun symbols_second_pass ::
  "world \<Rightarrow> string \<Rightarrow> symbol_index \<Rightarrow> string list \<Rightarrow> run_state \<Rightarrow> run_state option" where
  "symbols_second_pass w rootDir symbolByFile [] st = Some st"
| "symbols_second_pass w rootDir symbolByFile (file # files) st =
     (case symbols_second_pass_file w rootDir symbolByFile file st of
        None \<Rightarrow> None
      | Some st' \<Rightarrow> symbols_second_pass w rootDir symbolByFile files st')"


text \<open>The key of \<open>edgeMap2\<close>: \<open>`${edge.source}|${edge.target}|${edge.type}`\<close>.\<close>

definition edge_key :: "sym_edge \<Rightarrow> string" where
  "edge_key e = se_source e @ ''|'' @ se_target e @ ''|'' @ se_type e"

definition same_cond :: "cond \<Rightarrow> cond \<Rightarrow> bool" where
  "same_cond ec c = (condition ec = condition c \<and> branch ec = branch c)"

text \<open>The inner loop: a condition of the incoming edge is pushed unless one like it is there.\<close>

definition merge_conds :: "cond list \<Rightarrow> cond list \<Rightarrow> cond list" where
  "merge_conds existing incoming =
     foldl (\<lambda>acc c. if list_ex (\<lambda>ec. same_cond ec c) acc then acc else acc @ [c]) existing incoming"

text \<open>
  One step of the deduplication. A new key stores a copy of the edge object, which
  holds the same \<open>conditions\<close> array as the edge. For a key already there, an
  incoming edge with conditions has them pushed into the array of the stored edge,
  which gets a new empty array first if it has none.
\<close>

definition dedupe_step ::
  "(string \<times> sym_edge) list \<times> store \<Rightarrow> sym_edge \<Rightarrow> (string \<times> sym_edge) list \<times> store" where
  "dedupe_step mh edge =
     (let edgeMap2 = fst mh; h = snd mh; key = edge_key edge in
      case map_of edgeMap2 key of
        None \<Rightarrow> (edgeMap2 @ [(key, edge)], h)
      | Some existing \<Rightarrow>
          (case se_conditions edge of
             None \<Rightarrow> (edgeMap2, h)
           | Some a \<Rightarrow>
               (case se_conditions existing of
                  Some x \<Rightarrow> (edgeMap2, h[x := merge_conds (store_get h x) (store_get h a)])
                | None \<Rightarrow>
                    (map (\<lambda>(k, e). if k = key then (k, e\<lparr>se_conditions := Some (length h)\<rparr>)
                                    else (k, e))
                         edgeMap2,
                     h @ [merge_conds [] (store_get h a)]))))"

definition dedupe_edges :: "sym_edge list \<Rightarrow> store \<Rightarrow> sym_edge list \<times> store" where
  "dedupe_edges edges h =
     (let r = foldl dedupe_step ([], h) edges in (map snd (fst r), snd r))"

text \<open>The conditions an edge object carries, as a set: those in its array, if it has one.\<close>

definition edge_conds :: "store \<Rightarrow> sym_edge \<Rightarrow> cond set" where
  "edge_conds h e = (case se_conditions e of None \<Rightarrow> {} | Some a \<Rightarrow> set (store_get h a))"



text \<open>An edge of the result, its condition list read from the store as it is at the end.\<close>

record symbol_edge =
  ed_source :: string
  ed_target :: string
  ed_type :: string
  ed_conditions :: "cond list option"

definition read_edge :: "store \<Rightarrow> sym_edge \<Rightarrow> symbol_edge" where
  "read_edge h e =
     \<lparr>ed_source = se_source e, ed_target = se_target e, ed_type = se_type e,
      ed_conditions = map_option (store_get h) (se_conditions e)\<rparr>"

record symbol_graph =
  sg_symbols :: "symbol list"
  sg_edges :: "symbol_edge list"
  sg_files :: "string list"

definition finish_symbols :: "string list \<Rightarrow> run_state \<Rightarrow> symbol_graph" where
  "finish_symbols uniqueFiles st =
     (let (dedupedEdges, h) = dedupe_edges (allEdges st) (arrays st);
          symbolIds = set (map sym_id (allSymbols st));
          validEdges = filter (\<lambda>e. se_source e \<in> symbolIds \<and> se_target e \<in> symbolIds) dedupedEdges
      in \<lparr>sg_symbols = allSymbols st, sg_edges = map (read_edge h) validEdges,
          sg_files = uniqueFiles\<rparr>)"

text \<open>The two passes over the scanned files; \<open>None\<close> when a read or a traversal throws.\<close>

definition symbol_passes :: "world \<Rightarrow> string \<Rightarrow> run_state option" where
  "symbol_passes w rootDir =
     (let uniqueFiles = scan w rootDir EXTENSIONS in
      case symbols_first_pass w rootDir uniqueFiles
             \<lparr>allSymbols = [], allEdges = [], fileImports = [], arrays = []\<rparr> of
        None \<Rightarrow> None
      | Some st1 \<Rightarrow>
          symbols_second_pass w rootDir (build_symbolByFile (allSymbols st1)) uniqueFiles st1)"

definition analyzeSymbols :: "world \<Rightarrow> string \<Rightarrow> symbol_graph option" where
  "analyzeSymbols w rootDir =
     (case symbol_passes w rootDir of
        None \<Rightarrow> None
      | Some st \<Rightarrow> Some (finish_symbols (scan w rootDir EXTENSIONS) st))"

section \<open>Example inputs\<close>

definition sibling_disk :: "string \<Rightarrow> string option" where
  "sibling_disk p = (if p = ''/srv/app-secret/key.txt'' then Some ''s3cr3t'' else None)"

text \<open>Syntax trees are written with these helpers: a node, an identifier, a string literal.\<close>

definition mk :: "string \<Rightarrow> string \<Rightarrow> node list \<Rightarrow> node" where
  "mk t s ks =
     Node \<lparr>ntype = t, slot = s, nname = None, strval = None,
           pstart = None, pend = None, loc = None\<rparr> ks"

definition ident :: "string \<Rightarrow> string \<Rightarrow> node" where
  "ident s x =
     Node \<lparr>ntype = ''Identifier'', slot = s, nname = Some x, strval = None,
           pstart = None, pend = None, loc = None\<rparr> []"

definition str_lit :: "string \<Rightarrow> string \<Rightarrow> node" where
  "str_lit s v =
     Node \<lparr>ntype = ''StringLiteral'', slot = s, nname = None, strval = Some v,
           pstart = None, pend = None, loc = None\<rparr> []"

definition file_of :: "node list \<Rightarrow> node" where
  "file_of body = mk ''File'' [] [mk ''Program'' ''program'' body]"

text \<open>The tree of \<open>module.exports = { x, y }\<close>, for any two property names.\<close>

definition shorthand_property :: "string \<Rightarrow> node" where
  "shorthand_property x = mk ''ObjectProperty'' ''properties'' [ident ''key'' x, ident ''value'' x]"

definition cjs_object_export :: "string \<Rightarrow> string \<Rightarrow> node" where
  "cjs_object_export x y =
     file_of
       [mk ''ExpressionStatement'' ''body''
          [mk ''AssignmentExpression'' ''expression''
             [mk ''MemberExpression'' ''left''
                [ident ''object'' ''module'', ident ''property'' ''exports''],
              mk ''ObjectExpression'' ''right''
                [shorthand_property x, shorthand_property y]]]]"

definition span :: "nat \<Rightarrow> nat \<Rightarrow> node \<Rightarrow> node" where
  "span a b n = Node ((info n)\<lparr>pstart := Some a, pend := Some b\<rparr>) (kids n)"

text \<open>
  A project in the directory \<open>/r\<close>: every file with its relative name, its text and
  the tree the parser gives for that text (\<open>None\<close> when the parser refuses the text).
\<close>

definition project :: "(string \<times> string \<times> node option) list \<Rightarrow> world" where
  "project fs =
     \<lparr>process_cwd = ''/'',
      existsSync = (\<lambda>p. p = ''/r'' \<or> p \<in> set (map (\<lambda>(f, t, a). ''/r/'' @ f) fs)),
      readFileSync = (\<lambda>p. map_option fst (map_of (map (\<lambda>(f, t, a). (''/r/'' @ f, (t, a))) fs) p)),
      babel_parse = (\<lambda>ts jsx code. case find (\<lambda>(f, t, a). t = code) fs of
                                        Some (f, t, a) \<Rightarrow> a
                                      | None \<Rightarrow> None),
      traverse_throws = (\<lambda>ast. False),
      glob = (\<lambda>pat dir. if dir = ''/r''
                then filter (\<lambda>f. endsWith f (drop 4 pat)) (map fst fs) else []),
      script_src_matches = (\<lambda>html. [])\<rparr>"

text \<open>\<open>function foo() { if (cond) { bar(); } } function bar() {}\<close>\<close>

definition cond_text :: string where
  "cond_text = ''function foo() { if (cond) { bar(); } } function bar() {}''"

definition cond_call :: node where
  "cond_call = span 29 34 (mk ''CallExpression'' ''expression'' [ident ''callee'' ''bar''])"

definition cond_if :: node where
  "cond_if =
     span 17 37 (mk ''IfStatement'' ''body''
       [span 21 25 (ident ''test'' ''cond''),
        mk ''BlockStatement'' ''consequent'' [mk ''ExpressionStatement'' ''body'' [cond_call]]])"

definition cond_ast :: node where
  "cond_ast =
     file_of
       [mk ''FunctionDeclaration'' ''body''
          [ident ''id'' ''foo'', mk ''BlockStatement'' ''body'' [cond_if]],
        mk ''FunctionDeclaration'' ''body''
          [ident ''id'' ''bar'', mk ''BlockStatement'' ''body'' []]]"

definition cond_world :: world where
  "cond_world = project [(''a.js'', cond_text, Some cond_ast)]"

text \<open>\<open>var a = 1, ab = 2;\<close>\<close>

definition var_ast :: node where
  "var_ast =
     file_of
       [mk ''VariableDeclaration'' ''body''
          [mk ''VariableDeclarator'' ''declarations''
             [ident ''id'' ''a'', mk ''NumericLiteral'' ''init'' []],
           mk ''VariableDeclarator'' ''declarations''
             [ident ''id'' ''ab'', mk ''NumericLiteral'' ''init'' []]]]"

definition var_world :: world where
  "var_world = project [(''a.js'', ''var a = 1, ab = 2;'', Some var_ast)]"

definition var_ab :: symbol where
  "var_ab =
     \<lparr>sym_id = ''a.js::ab'', sym_name = ''ab'', sym_type = ''variable'', sym_file = ''a.js'',
      startLine = 0, endLine = 0, params = None, exported = Some False,
      parent = None, methods = None, superClass = None\<rparr>"

definition cond_edge :: symbol_edge where
  "cond_edge =
     \<lparr>ed_source = ''a.js::foo'', ed_target = ''a.js::bar'', ed_type = ''calls'',
      ed_conditions = Some [\<lparr>condition = ''cond'', branch = ''if''\<rparr>]\<rparr>"

text \<open>
  A module that imports itself:
  \<open>import * as self from './a.js'; export function helper() { return self; }\<close>
\<close>

definition self_import_text :: string where
  "self_import_text = ''import * as self from './a.js'; export function helper() { return self; }''"

definition self_import_ast :: node where
  "self_import_ast =
     file_of
       [mk ''ImportDeclaration'' ''body''
          [mk ''ImportNamespaceSpecifier'' ''specifiers'' [ident ''local'' ''self''],
           str_lit ''source'' ''./a.js''],
        mk ''ExportNamedDeclaration'' ''body''
          [mk ''FunctionDeclaration'' ''declaration''
             [ident ''id'' ''helper'',
              mk ''BlockStatement'' ''body''
                [mk ''ReturnStatement'' ''body'' [ident ''argument'' ''self'']]]]]"

definition self_import_world :: world where
  "self_import_world = project [(''a.js'', self_import_text, Some self_import_ast)]"

definition self_loop :: file_edge where
  "self_loop = \<lparr>e_source = ''a.js'', e_target = ''a.js'', e_weight = 1, e_references = [''self'']\<rparr>"

text \<open>
  Two files, the second importing the first for its side effects only:
  \<open>a.js\<close> is \<open>var ab = 1;\<close> and \<open>b.js\<close> is \<open>import './a.js';\<close>
\<close>

definition ab_ast :: node where
  "ab_ast =
     file_of
       [mk ''VariableDeclaration'' ''body''
          [mk ''VariableDeclarator'' ''declarations''
             [ident ''id'' ''ab'', mk ''NumericLiteral'' ''init'' []]]]"

definition bare_import_ast :: node where
  "bare_import_ast = file_of [mk ''ImportDeclaration'' ''body'' [str_lit ''source'' ''./a.js'']]"

definition bare_import_world :: world where
  "bare_import_world =
     project [(''a.js'', ''var ab = 1;'', Some ab_ast),
              (''b.js'', ''import './a.js';'', Some bare_import_ast)]"

definition bare_edge :: file_edge where
  "bare_edge = \<lparr>e_source = ''b.js'', e_target = ''a.js'', e_weight = 0, e_references = []\<rparr>"

text \<open>A file the parser refuses: \<open>bad.js\<close> is \<open>function (\<close>, one line of text.\<close>

definition broken_world :: world where
  "broken_world = project [(''bad.js'', ''function ('', None)]"

definition broken_node :: file_node where
  "broken_node =
     \<lparr>n_id = ''bad.js'', n_exports = [], n_lines = 0, n_folder = ''.'',
      n_extension = ''.js'', n_incomingCount = 0\<rparr>"

definition self_import_graph :: file_graph where
  "self_import_graph =
     \<lparr>g_nodes = [\<lparr>n_id = ''a.js'',
                   n_exports = [\<lparr>fname = Some ''helper'', fkind = ''function''\<rparr>],
                   n_lines = 1, n_folder = ''.'', n_extension = ''.js'',
                   n_incomingCount = 1\<rparr>],
      g_edges = [self_loop],
      g_folders = [''.''],
      g_extensions = [''.js'']\<rparr>"

definition bare_import_graph :: file_graph where
  "bare_import_graph =
     \<lparr>g_nodes = [\<lparr>n_id = ''a.js'', n_exports = [], n_lines = 1, n_folder = ''.'',
                   n_extension = ''.js'', n_incomingCount = 1\<rparr>,
                 \<lparr>n_id = ''b.js'', n_exports = [], n_lines = 1, n_folder = ''.'',
                   n_extension = ''.js'', n_incomingCount = 0\<rparr>],
      g_edges = [bare_edge],
      g_folders = [''.''],
      g_extensions = [''.js'']\<rparr>"

definition broken_graph :: file_graph where
  "broken_graph =
     \<lparr>g_nodes = [broken_node], g_edges = [], g_folders = [''.''], g_extensions = [''.js'']\<rparr>"

definition on_lines :: "nat \<Rightarrow> nat \<Rightarrow> node \<Rightarrow> node" where
  "on_lines a b n = Node ((info n)\<lparr>loc := Some (a, b)\<rparr>) (kids n)"

text \<open>A name declared twice: \<open>var ab = 1;\<close> on line 1 and \<open>var ab = 2;\<close> on line 2.\<close>

definition dup_text :: string where
  "dup_text = ''var ab = 1;'' @ [CHR 0x0A] @ ''var ab = 2;''"

definition dup_ast :: node where
  "dup_ast =
     file_of
       [on_lines 1 1 (mk ''VariableDeclaration'' ''body''
          [on_lines 1 1 (mk ''VariableDeclarator'' ''declarations''
             [ident ''id'' ''ab'', mk ''NumericLiteral'' ''init'' []])]),
        on_lines 2 2 (mk ''VariableDeclaration'' ''body''
          [on_lines 2 2 (mk ''VariableDeclarator'' ''declarations''
             [ident ''id'' ''ab'', mk ''NumericLiteral'' ''init'' []])])]"

definition dup_world :: world where
  "dup_world = project [(''a.js'', dup_text, Some dup_ast)]"

definition ab_on_line :: "nat \<Rightarrow> symbol" where
  "ab_on_line l =
     \<lparr>sym_id = ''a.js::ab'', sym_name = ''ab'', sym_type = ''variable'', sym_file = ''a.js'',
      startLine = l, endLine = l, params = None, exported = Some False,
      parent = None, methods = None, superClass = None\<rparr>"

definition dup_graph :: symbol_graph where
  "dup_graph = \<lparr>sg_symbols = [ab_on_line 1, ab_on_line 2], sg_edges = [], sg_files = [''a.js'']\<rparr>"

text \<open>
  Three files. \<open>a.js\<close> is \<open>export class A { static render() {} }\<close>, \<open>b.js\<close> is
  \<open>class B { render() {} }\<close>, and \<open>c.js\<close> is
  \<open>import { A } from './a.js'; function foo(obj) { if (x) { obj.render(); }
  if (y) { A.render(); } if (x) { obj.render(); } }\<close> on one line.
\<close>

definition class_with_render :: "string \<Rightarrow> string \<Rightarrow> node" where
  "class_with_render s c =
     mk ''ClassDeclaration'' s
       [ident ''id'' c,
        mk ''ClassBody'' ''body''
          [mk ''ClassMethod'' ''body''
             [ident ''key'' ''render'', mk ''BlockStatement'' ''body'' []]]]"

definition alias_a_ast :: node where
  "alias_a_ast =
     file_of [mk ''ExportNamedDeclaration'' ''body'' [class_with_render ''declaration'' ''A'']]"

definition alias_b_ast :: node where
  "alias_b_ast = file_of [class_with_render ''body'' ''B'']"

definition alias_c_text :: string where
  "alias_c_text =
     ''import { A } from './a.js'; function foo(obj) { if (x) { obj.render(); } ''
     @ ''if (y) { A.render(); } if (x) { obj.render(); } }''"

text \<open>\<open>if (t) { receiver.render(); }\<close> with the offsets of the test and of the call.\<close>

definition guarded_render :: "string \<Rightarrow> nat \<Rightarrow> string \<Rightarrow> nat \<Rightarrow> nat \<Rightarrow> node" where
  "guarded_render t a receiver c1 c2 =
     mk ''IfStatement'' ''body''
       [span a (a + 1) (ident ''test'' t),
        mk ''BlockStatement'' ''consequent''
          [mk ''ExpressionStatement'' ''body''
             [span c1 c2 (mk ''CallExpression'' ''expression''
                [mk ''MemberExpression'' ''callee''
                   [ident ''object'' receiver, ident ''property'' ''render'']])]]]"

definition alias_c_ast :: node where
  "alias_c_ast =
     file_of
       [mk ''ImportDeclaration'' ''body''
          [mk ''ImportSpecifier'' ''specifiers'' [ident ''imported'' ''A'', ident ''local'' ''A''],
           str_lit ''source'' ''./a.js''],
        mk ''FunctionDeclaration'' ''body''
          [ident ''id'' ''foo'', ident ''params'' ''obj'',
           mk ''BlockStatement'' ''body''
             [guarded_render ''x'' 52 ''obj'' 57 69,
              guarded_render ''y'' 77 ''A'' 82 92,
              guarded_render ''x'' 100 ''obj'' 105 117]]]"

definition alias_world :: world where
  "alias_world =
     project [(''a.js'', ''export class A { static render() {} }'', Some alias_a_ast),
              (''b.js'', ''class B { render() {} }'', Some alias_b_ast),
              (''c.js'', alias_c_text, Some alias_c_ast)]"

definition if_x :: cond where
  "if_x = \<lparr>condition = ''x'', branch = ''if''\<rparr>"

definition if_y :: cond where
  "if_y = \<lparr>condition = ''y'', branch = ''if''\<rparr>"












section \<open>Facts about the extraction of symbols\<close>

lemma function_symbols_facts:
  "s \<in> set (function_symbols f n anc) \<Longrightarrow>
     sym_file s = f \<and> sym_id s = symbol_id f (sym_name s) \<and> sym_type s \<noteq> ''variable''"
  by (auto simp: function_symbols_def split: option.splits)

lemma arrow_symbols_facts:
  "s \<in> set (arrow_symbols f n anc) \<Longrightarrow>
     sym_file s = f \<and> sym_id s = symbol_id f (sym_name s) \<and> sym_type s \<noteq> ''variable''"
  by (auto simp: arrow_symbols_def Let_def split: if_splits)

lemma class_symbols_facts:
  "s \<in> set (class_symbols f n anc) \<Longrightarrow>
     sym_file s = f \<and> sym_id s = symbol_id f (sym_name s) \<and> sym_type s \<noteq> ''variable''"
  by (auto simp: class_symbols_def method_symbol_def Let_def split: option.splits)

lemma type_symbols_facts:
  "s \<in> set (type_symbols k f n anc) \<Longrightarrow>
     sym_file s = f \<and> sym_id s = symbol_id f (sym_name s) \<and> sym_type s = k"
  by (auto simp: type_symbols_def split: option.splits)

lemma variable_symbols_facts:
  "s \<in> set (variable_symbols f n anc) \<Longrightarrow>
     sym_file s = f \<and> sym_id s = symbol_id f (sym_name s) \<and> 2 \<le> length (sym_name s)"
  by (auto simp: variable_symbols_def variable_symbol_def Let_def split: if_splits)

lemma symbols_visitor_facts:
  assumes "s \<in> set (symbols_visitor f n anc)"
  shows "sym_file s = f" and "sym_id s = symbol_id f (sym_name s)"
    and "sym_type s = ''variable'' \<Longrightarrow> 2 \<le> length (sym_name s)"
  using assms
  by (auto simp: symbols_visitor_def split: if_splits
      dest: function_symbols_facts arrow_symbols_facts class_symbols_facts
            variable_symbols_facts type_symbols_facts)

lemma extractSymbols_facts:
  assumes "s \<in> set (fst (extractSymbols ast f src))"
  shows "sym_file s = f" and "sym_id s = symbol_id f (sym_name s)"
    and "sym_type s = ''variable'' \<Longrightarrow> 2 \<le> length (sym_name s)"
  using assms by (auto simp: extractSymbols_def dest: symbols_visitor_facts)

lemma extracted_symbols_facts:
  assumes "s \<in> set (extracted_symbols w r f)"
  shows "sym_file s = f" and "sym_id s = symbol_id f (sym_name s)"
    and "sym_type s = ''variable'' \<Longrightarrow> 2 \<le> length (sym_name s)"
  using assms
  by (auto simp: extracted_symbols_def split: option.splits dest: extractSymbols_facts)

lemma extracted_symbols_parsed:
  assumes "s \<in> set (extracted_symbols w r f)"
  shows "\<exists>ast. parseFile w (path_join r f) = Some (Some ast)"
proof (cases "parseFile w (path_join r f)")
  case None
  with assms show ?thesis by (simp add: extracted_symbols_def)
next
  case (Some a)
  with assms show ?thesis by (cases a) (simp_all add: extracted_symbols_def)
qed

section \<open>Facts about the run of the symbol graph builder\<close>

lemma symbols_first_pass_allSymbols:
  "symbols_first_pass w r fs st = Some st' \<Longrightarrow>
     allSymbols st' = allSymbols st @ concat (map (extracted_symbols w r) fs)"
proof (induction fs arbitrary: st)
  case Nil
  then show ?case by simp
next
  case (Cons f fs)
  from Cons.prems obtain st1 where
    s1: "symbols_first_pass_file w r f st = Some st1" and
    s2: "symbols_first_pass w r fs st1 = Some st'"
    by (auto split: option.splits)
  from s1 have "allSymbols st1 = allSymbols st @ extracted_symbols w r f"
    by (auto simp: symbols_first_pass_file_def extracted_symbols_def Let_def
        split: option.splits prod.splits if_splits)
  with Cons.IH[OF s2] show ?case by simp
qed

lemma symbols_second_pass_allSymbols:
  "symbols_second_pass w r sbf fs st = Some st' \<Longrightarrow> allSymbols st' = allSymbols st"
proof (induction fs arbitrary: st)
  case Nil
  then show ?case by simp
next
  case (Cons f fs)
  from Cons.prems obtain st1 where
    s1: "symbols_second_pass_file w r sbf f st = Some st1" and
    s2: "symbols_second_pass w r sbf fs st1 = Some st'"
    by (auto split: option.splits)
  from s1 have "allSymbols st1 = allSymbols st"
    by (auto simp: symbols_second_pass_file_def Let_def split: option.splits prod.splits if_splits)
  with Cons.IH[OF s2] show ?case by simp
qed

lemma analyzeSymbols_symbols:
  assumes "analyzeSymbols w r = Some g"
  shows "sg_symbols g = concat (map (extracted_symbols w r) (scan w r EXTENSIONS))"
proof -
  from assms obtain st1 st2 where
    p1: "symbols_first_pass w r (scan w r EXTENSIONS)
           \<lparr>allSymbols = [], allEdges = [], fileImports = [], arrays = []\<rparr> = Some st1" and
    p2: "symbols_second_pass w r (build_symbolByFile (allSymbols st1))
           (scan w r EXTENSIONS) st1 = Some st2" and
    g: "g = finish_symbols (scan w r EXTENSIONS) st2"
    by (auto simp: analyzeSymbols_def symbol_passes_def Let_def split: option.splits)
  have "sg_symbols g = allSymbols st2"
    using g by (simp add: finish_symbols_def Let_def split: prod.splits)
  with symbols_first_pass_allSymbols[OF p1] symbols_second_pass_allSymbols[OF p2]
  show ?thesis by simp
qed

section \<open>Facts about the passes of the file graph builder\<close>

lemma set_dedupe_from: "set (dedupe_from seen xs) = set xs - set seen"
  by (induction seen xs rule: dedupe_from.induct) auto

lemma distinct_dedupe_from: "distinct (dedupe_from seen xs) \<and> set (dedupe_from seen xs) \<inter> set seen = {}"
  by (induction seen xs rule: dedupe_from.induct) (auto simp: set_dedupe_from)

lemma set_dedupe: "set (dedupe xs) = set xs"
  by (simp add: dedupe_def set_dedupe_from)

lemma distinct_dedupe: "distinct (dedupe xs)"
  using distinct_dedupe_from[of "[]" xs] by (simp add: dedupe_def)

lemma distinct_scan: "distinct (scan w r exts)"
  by (simp add: scan_def distinct_dedupe)

lemma map_of_update_entry:
  "map_of (map (\<lambda>(k, v). if k = key then (k, h v) else (k, v)) xs) f
     = (if f = key then map_option h (map_of xs f) else map_of xs f)"
  by (induction xs) auto

lemma map_fst_update_entry:
  "map fst (map (\<lambda>(k, v). if k = key then (k, h v) else (k, v)) xs) = map fst xs"
  by (induction xs) auto

lemma map_of_set_prop:
  "map_of (set_prop obj k v) k' = (if k' = k then Some v else map_of obj k')"
proof (cases "k \<in> fst ` set obj")
  case True
  then have "map_of obj k \<noteq> None" by (simp add: map_of_eq_None_iff)
  then show ?thesis
    using True map_of_update_entry[of k "\<lambda>_. v" obj k']
    by (auto simp: set_prop_def)
next
  case False
  then have "map_of obj k = None" by (simp add: map_of_eq_None_iff)
  then show ?thesis using False
    by (auto simp: set_prop_def map_add_def split: option.splits)
qed

lemma keys_set_prop: "fst ` set (set_prop obj k v) = insert k (fst ` set obj)"
proof (cases "k \<in> fst ` set obj")
  case True
  have "fst ` set (map (\<lambda>(k', v'). if k' = k then (k', v) else (k', v')) obj) = fst ` set obj"
    using map_fst_update_entry[of k "\<lambda>_. v" obj] by (metis list.set_map)
  with True show ?thesis by (auto simp: set_prop_def)
next
  case False
  then show ?thesis by (auto simp: set_prop_def)
qed

lemma first_pass_keys:
  "first_pass w r fs fd = Some fd' \<Longrightarrow> fst ` set fd' = fst ` set fd \<union> set fs"
proof (induction fs arbitrary: fd)
  case Nil
  then show ?case by simp
next
  case (Cons f fs)
  from Cons.prems obtain d where
    d: "first_pass_file w r f = Some d" and
    rest: "first_pass w r fs (set_prop fd f d) = Some fd'"
    by (auto split: option.splits)
  from Cons.IH[OF rest] show ?case by (auto simp: keys_set_prop)
qed

lemma first_pass_lookup_other:
  "first_pass w r fs fd = Some fd' \<Longrightarrow> f \<notin> set fs \<Longrightarrow> map_of fd' f = map_of fd f"
proof (induction fs arbitrary: fd)
  case Nil
  then show ?case by simp
next
  case (Cons g fs)
  from Cons.prems obtain d where
    rest: "first_pass w r fs (set_prop fd g d) = Some fd'"
    by (auto split: option.splits)
  from Cons.IH[OF rest] Cons.prems(2) show ?case by (simp add: map_of_set_prop)
qed

lemma first_pass_lookup:
  "first_pass w r fs fd = Some fd' \<Longrightarrow> distinct fs \<Longrightarrow> f \<in> set fs \<Longrightarrow>
     \<exists>d. first_pass_file w r f = Some d \<and> map_of fd' f = Some d"
proof (induction fs arbitrary: fd)
  case Nil
  then show ?case by simp
next
  case (Cons g fs)
  from Cons.prems(1) obtain d where
    d: "first_pass_file w r g = Some d" and
    rest: "first_pass w r fs (set_prop fd g d) = Some fd'"
    by (auto split: option.splits)
  show ?case
  proof (cases "f = g")
    case True
    with Cons.prems(2) have "f \<notin> set fs" by simp
    from first_pass_lookup_other[OF rest this] d True show ?thesis
      by (simp add: map_of_set_prop)
  next
    case False
    with Cons.prems have "f \<in> set fs" "distinct fs" by auto
    from Cons.IH[OF rest this(2) this(1)] show ?thesis .
  qed
qed

lemma second_pass_keys:
  "second_pass w r fs fd = Some fd' \<Longrightarrow> map fst fd' = map fst fd"
proof (induction fs arbitrary: fd)
  case Nil
  then show ?case by simp
next
  case (Cons g fs)
  show ?case
  proof (cases "is_html g")
    case True
    with Cons show ?thesis by simp
  next
    case False
    with Cons.prems show ?thesis
      by (auto simp: Let_def map_fst_update_entry split: option.splits if_splits dest!: Cons.IH)
  qed
qed

lemma second_pass_lookup:
  "second_pass w r fs fd = Some fd' \<Longrightarrow> map_of fd' f = Some d' \<Longrightarrow>
     \<exists>d. map_of fd f = Some d \<and> fd_lines d' = fd_lines d \<and> fd_exports d' = fd_exports d
         \<and> fd_htmlScriptRefs d' = fd_htmlScriptRefs d
         \<and> (parseFile w (path_join r f) = Some None \<or> is_html f \<longrightarrow> d' = d)"
proof (induction fs arbitrary: fd)
  case Nil
  then show ?case by simp
next
  case (Cons g fs)
  show ?case
  proof (cases "is_html g")
    case True
    with Cons show ?thesis by simp
  next
    case False
    show ?thesis
    proof (cases "parseFile w (path_join r g)")
      case None
      with False Cons.prems show ?thesis by (simp add: Let_def)
    next
      case (Some a)
      show ?thesis
      proof (cases a)
        case None
        with Some False Cons show ?thesis by (simp add: Let_def)
      next
        case (Some ast)
        define upd where
          "upd = (\<lambda>d::file_data. d\<lparr>fd_imports := extractImports w ast (path_join r g) r,
                        fd_globals := Some (extractGlobalDeclarations ast)\<rparr>)"
        define fd1 where
          "fd1 = map (\<lambda>(k, d). if k = g then (k, upd d) else (k, d)) fd"
        from Cons.prems(1) False \<open>parseFile w (path_join r g) = Some a\<close> Some
        have rest: "second_pass w r fs fd1 = Some fd'"
          unfolding fd1_def upd_def by (simp add: Let_def split: if_splits)
        from Cons.IH[OF rest Cons.prems(2)] obtain d1 where
          d1: "map_of fd1 f = Some d1" "fd_lines d' = fd_lines d1" "fd_exports d' = fd_exports d1"
              "fd_htmlScriptRefs d' = fd_htmlScriptRefs d1"
              "parseFile w (path_join r f) = Some None \<or> is_html f \<longrightarrow> d' = d1"
          by blast
        have look: "map_of fd1 f = (if f = g then map_option upd (map_of fd f) else map_of fd f)"
          unfolding fd1_def by (rule map_of_update_entry)
        show ?thesis
        proof (cases "f = g")
          case True
          with look d1(1) obtain d where d: "map_of fd f = Some d" "d1 = upd d"
            by (auto split: if_splits)
          with d1 True False \<open>parseFile w (path_join r g) = Some a\<close> Some show ?thesis
            by (auto simp: upd_def)
        next
          case False
          with look d1(1) have "map_of fd f = Some d1" by simp
          with d1 show ?thesis by blast
        qed
      qed
    qed
  qed
qed

section \<open>Facts about the edges of the file graph\<close>

lemma str_less_irrefl: "\<not> str_less a a"
  by (induction a) auto

lemma str_less_asym: "str_less a b \<Longrightarrow> \<not> str_less b a"
  by (induction a b rule: str_less.induct) auto

lemma str_less_total: "\<not> str_less a b \<Longrightarrow> \<not> str_less b a \<Longrightarrow> a = b"
  by (induction a b rule: str_less.induct) (auto simp: not_less)

lemma pair_key_commute: "pair_key a b = pair_key b a"
  using str_less_asym[of a b] str_less_total[of a b]
  by (auto simp: pair_key_def)

lemma pair_key_of_set: "{a, b} = {c, d} \<Longrightarrow> pair_key a b = pair_key c d"
  using pair_key_commute[of c d] by (auto simp: doubleton_eq_iff)

lemma foldl_invariant:
  assumes "P a" and "\<And>a x. P a \<Longrightarrow> x \<in> set xs \<Longrightarrow> P (f a x)"
  shows "P (foldl f a xs)"
  using assms by (induction xs arbitrary: a) auto

lemma add_edge_distinct:
  assumes "distinct (map fst em)"
  shows "distinct (map fst (add_edge em f t n names))"
proof -
  define key where "key = pair_key f t"
  define em1 where
    "em1 = (if key \<in> fst ` set em then em
            else em @ [(key, \<lparr>e_source = f, e_target = t, e_weight = 0, e_references = []\<rparr>)])"
  have "distinct (map fst em1)" using assms by (auto simp: em1_def)
  moreover have "map fst (add_edge em f t n names) = map fst em1"
    unfolding add_edge_def Let_def key_def[symmetric] em1_def[symmetric]
    by (rule map_fst_update_entry)
  ultimately show ?thesis by simp
qed

lemma add_edge_entries:
  assumes "\<forall>(k, e)\<in>set em. Q k e"
    and "Q (pair_key f t) \<lparr>e_source = f, e_target = t, e_weight = 0, e_references = []\<rparr>"
    and "\<And>k e. Q k e \<Longrightarrow> k = pair_key f t \<Longrightarrow>
           Q k (e\<lparr>e_weight := e_weight e + n, e_references := e_references e @ names\<rparr>)"
  shows "\<forall>(k, e)\<in>set (add_edge em f t n names). Q k e"
proof -
  define key where "key = pair_key f t"
  define em1 where
    "em1 = (if key \<in> fst ` set em then em
            else em @ [(key, \<lparr>e_source = f, e_target = t, e_weight = 0, e_references = []\<rparr>)])"
  have q1: "\<forall>(k, e)\<in>set em1. Q k e"
    using assms(1,2) by (auto simp: em1_def key_def)
  have "add_edge em f t n names
          = map (\<lambda>(k, e). if k = key
                   then (k, e\<lparr>e_weight := e_weight e + n, e_references := e_references e @ names\<rparr>)
                   else (k, e)) em1"
    unfolding add_edge_def Let_def key_def[symmetric] em1_def[symmetric] ..
  with q1 assms(3) show ?thesis by (fastforce simp: key_def split: if_splits)
qed

lemma build_edges_invariant:
  assumes S: "\<And>file d. file \<in> set files \<Longrightarrow> data_of fd file = Some d \<Longrightarrow>
               fd_imports d \<noteq> [] \<or> (\<exists>refs. fd_htmlScriptRefs d = Some refs \<and> refs \<noteq> []) \<Longrightarrow>
               file \<in> S"
  shows "distinct (map (\<lambda>e. pair_key (e_source e) (e_target e)) (build_edges files fd))"
    and "\<forall>e\<in>set (build_edges files fd).
           e_weight e = length (e_references e) \<and> e_source e \<in> S \<and> known_file fd (e_target e)"
proof -
  define Q where
    "Q = (\<lambda>k (e :: file_edge). k = pair_key (e_source e) (e_target e)
               \<and> e_weight e = length (e_references e)
               \<and> e_source e \<in> S \<and> known_file fd (e_target e))"
  define P where
    "P = (\<lambda>em :: (string \<times> file_edge) list.
            distinct (map fst em) \<and> (\<forall>(k, e)\<in>set em. Q k e))"
  have step: "P (add_edge em f t (length names) names)"
    if "P em" "f \<in> S" "known_file fd t"
    for em :: "(string \<times> file_edge) list" and f t names
  proof -
    have "distinct (map fst (add_edge em f t (length names) names))"
      using that(1) by (simp add: P_def add_edge_distinct)
    moreover have "\<forall>(k, e)\<in>set (add_edge em f t (length names) names). Q k e"
    proof (rule add_edge_entries)
      show "\<forall>(k, e)\<in>set em. Q k e" using that(1) by (simp add: P_def)
      show "Q (pair_key f t) \<lparr>e_source = f, e_target = t, e_weight = 0, e_references = []\<rparr>"
        using that(2,3) by (simp add: Q_def)
      show "Q k (e\<lparr>e_weight := e_weight e + length names,
                    e_references := e_references e @ names\<rparr>)"
        if "Q k e" for k e
        using that by (simp add: Q_def)
    qed
    ultimately show ?thesis by (simp add: P_def)
  qed
  have imp: "P (import_edges_of fd fl em)" if pem: "P em" and fl: "fl \<in> set files" for em fl
  proof (cases "data_of fd fl")
    case None
    with pem show ?thesis by (simp add: import_edges_of_def)
  next
    case (Some d)
    show ?thesis
    proof (cases "fd_imports d = []")
      case True
      with Some pem show ?thesis by (simp add: import_edges_of_def)
    next
      case False
      with S[OF fl Some] have inS: "fl \<in> S" by simp
      show ?thesis
        unfolding import_edges_of_def
      proof (rule foldl_invariant)
        show "P em" by (rule pem)
      next
        fix a x
        assume pa: "P a"
        show "P (if resolved x = [] \<or> \<not> known_file fd (resolved x) then a
                 else add_edge a fl (resolved x) (length (specifiers x))
                        (map spname (specifiers x)))"
        proof (cases "resolved x = [] \<or> \<not> known_file fd (resolved x)")
          case True
          with pa show ?thesis by simp
        next
          case False
          then have k: "known_file fd (resolved x)" by simp
          from step[OF pa inS k, of "map spname (specifiers x)"] False
          show ?thesis by simp
        qed
      qed
    qed
  qed
  have scr: "P (script_edges_of fd fl em)" if pem: "P em" and fl: "fl \<in> set files" for em fl
  proof (cases "data_of fd fl")
    case None
    with pem show ?thesis by (simp add: script_edges_of_def)
  next
    case (Some d)
    show ?thesis
    proof (cases "fd_htmlScriptRefs d")
      case None
      with Some pem show ?thesis by (simp add: script_edges_of_def)
    next
      case (Some refs)
      show ?thesis
      proof (cases "refs = []")
        case True
        with Some \<open>data_of fd fl = Some d\<close> pem show ?thesis
          by (simp add: script_edges_of_def)
      next
        case False
        with S[OF fl \<open>data_of fd fl = Some d\<close>] Some have inS: "fl \<in> S" by simp
        show ?thesis
          unfolding script_edges_of_def
        proof (rule foldl_invariant)
          show "P em" by (rule pem)
        next
          fix a x
          assume pa: "P a"
          show "P (if \<not> known_file fd x then a else add_edge a fl x 1 [''script-src''])"
          proof (cases "known_file fd x")
            case True
            from step[OF pa inS True, of "[''script-src'']"] True show ?thesis by simp
          next
            case False
            with pa show ?thesis by simp
          qed
        qed
      qed
    qed
  qed
  have p0: "P []" by (simp add: P_def)
  have p1: "P (foldl (\<lambda>em file. import_edges_of fd file em) [] files)"
    by (rule foldl_invariant[where P = P, OF p0]) (rule imp)
  have final: "P (foldl (\<lambda>em file. script_edges_of fd file em)
              (foldl (\<lambda>em file. import_edges_of fd file em) [] files) files)"
    by (rule foldl_invariant[where P = P, OF p1]) (rule scr)
  define em where "em = foldl (\<lambda>em file. script_edges_of fd file em)
              (foldl (\<lambda>em file. import_edges_of fd file em) [] files) files"
  have es: "build_edges files fd = map snd em"
    by (simp add: build_edges_def em_def)
  from final have d: "distinct (map fst em)" and q: "\<forall>(k, e)\<in>set em. Q k e"
    by (simp_all add: P_def em_def)
  from q have "map fst em = map (\<lambda>e. pair_key (e_source e) (e_target e)) (map snd em)"
    by (induction em) (auto simp: Q_def)
  with d show "distinct (map (\<lambda>e. pair_key (e_source e) (e_target e)) (build_edges files fd))"
    by (simp add: es)
  from q show "\<forall>e\<in>set (build_edges files fd).
           e_weight e = length (e_references e) \<and> e_source e \<in> S \<and> known_file fd (e_target e)"
    by (auto simp: es Q_def)
qed

section \<open>Facts about the run of the file graph builder\<close>

lemma analyzeCodebase_run:
  assumes "analyzeCodebase w r = Some g"
  obtains fd1 fd where
    "first_pass w r (scan w r ALL_EXTENSIONS) [] = Some fd1"
    "second_pass w r (scan w r ALL_EXTENSIONS) fd1 = Some fd"
    "g = build_graph (scan w r ALL_EXTENSIONS) fd"
  using assms by (auto simp: analyzeCodebase_def Let_def split: option.splits)

lemma run_data:
  assumes "first_pass w r fs [] = Some fd1" and "second_pass w r fs fd1 = Some fd"
    and "distinct fs" and "f \<in> set fs"
  shows "\<exists>d0 d. first_pass_file w r f = Some d0 \<and> data_of fd f = Some d
           \<and> fd_lines d = fd_lines d0 \<and> fd_exports d = fd_exports d0
           \<and> fd_htmlScriptRefs d = fd_htmlScriptRefs d0
           \<and> (parseFile w (path_join r f) = Some None \<or> is_html f \<longrightarrow> d = d0)"
proof -
  from first_pass_lookup[OF assms(1,3,4)] obtain d0 where
    d0: "first_pass_file w r f = Some d0" "map_of fd1 f = Some d0" by blast
  have "f \<in> fst ` set fd1"
    using first_pass_keys[OF assms(1)] assms(4) by simp
  then have "f \<in> fst ` set fd"
    using second_pass_keys[OF assms(2)] by (metis list.set_map)
  then obtain d where d: "map_of fd f = Some d"
    by (metis map_of_eq_None_iff not_Some_eq)
  from second_pass_lookup[OF assms(2) d] d0(2) d0(1) d show ?thesis
    by (auto simp: data_of_def)
qed

lemma run_keys:
  assumes "first_pass w r fs [] = Some fd1" and "second_pass w r fs fd1 = Some fd"
  shows "fst ` set fd = set fs"
proof -
  have "fst ` set fd = fst ` set fd1"
    using second_pass_keys[OF assms(2)] by (metis list.set_map)
  with first_pass_keys[OF assms(1)] show ?thesis by simp
qed

lemma build_nodes_mem:
  "n \<in> set (build_nodes fs fd) \<longleftrightarrow>
     (\<exists>f d. f \<in> set fs \<and> data_of fd f = Some d \<and> n = make_node f d)"
proof (induction fs)
  case Nil
  then show ?case by (simp add: build_nodes_def)
next
  case (Cons a fs)
  have "build_nodes (a # fs) fd
          = (case data_of fd a of None \<Rightarrow> [] | Some d \<Rightarrow> [make_node a d]) @ build_nodes fs fd"
    by (simp add: build_nodes_def)
  with Cons show ?case
    by (cases "data_of fd a") auto
qed

lemma graph_nodes_of_data:
  assumes "n \<in> set (g_nodes (build_graph fs fd))"
  shows "\<exists>d. n_id n \<in> set fs \<and> data_of fd (n_id n) = Some d
             \<and> n_lines n = fd_lines d \<and> n_exports n = n_exports (make_node (n_id n) d)"
proof -
  from assms obtain m where
    m: "m \<in> set (build_nodes fs fd)"
       "n = m\<lparr>n_incomingCount := incoming_count fs fd (n_id m)\<rparr>"
    by (auto simp: build_graph_def Let_def)
  from m(1) obtain f d where "f \<in> set fs" "data_of fd f = Some d" "m = make_node f d"
    unfolding build_nodes_mem by blast
  with m(2) show ?thesis by (simp add: make_node_def)
qed

lemma graph_node_exists:
  assumes "f \<in> set fs" and "data_of fd f = Some d"
  shows "f \<in> n_id ` set (g_nodes (build_graph fs fd))"
proof -
  from assms have "make_node f d \<in> set (build_nodes fs fd)"
    unfolding build_nodes_mem by blast
  then have "(make_node f d)\<lparr>n_incomingCount := incoming_count fs fd f\<rparr>
               \<in> set (g_nodes (build_graph fs fd))"
    by (force simp: build_graph_def Let_def make_node_def)
  then show ?thesis by (force simp: make_node_def)
qed

lemma graph_node_ids:
  assumes "fst ` set fd = set fs"
  shows "n_id ` set (g_nodes (build_graph fs fd)) = set fs"
proof
  show "n_id ` set (g_nodes (build_graph fs fd)) \<subseteq> set fs"
    using graph_nodes_of_data by blast
  show "set fs \<subseteq> n_id ` set (g_nodes (build_graph fs fd))"
  proof
    fix f assume f: "f \<in> set fs"
    with assms obtain d where "data_of fd f = Some d"
      by (metis data_of_def map_of_eq_None_iff not_Some_eq)
    with f show "f \<in> n_id ` set (g_nodes (build_graph fs fd))"
      by (rule graph_node_exists)
  qed
qed

lemma known_file_cases:
  "known_file fd k \<Longrightarrow> k \<in> fst ` set fd \<or> k \<in> set object_prototype_names"
proof -
  assume "known_file fd k"
  then have "map_of fd k \<noteq> None \<or> k \<in> set object_prototype_names"
    by (auto simp: known_file_def get_prop_def split: option.splits if_splits)
  then show ?thesis by (auto simp: map_of_eq_None_iff)
qed

lemma distinct_map_coarser:
  assumes "\<And>x y. h x = h y \<Longrightarrow> k x = k y" and "distinct (map k xs)"
  shows "distinct (map h xs)"
  using assms(2)
proof (induction xs)
  case Nil
  then show ?case by simp
next
  case (Cons x xs)
  have "h x \<notin> h ` set xs"
  proof
    assume "h x \<in> h ` set xs"
    then obtain y where y: "y \<in> set xs" "h x = h y" by blast
    from assms(1)[OF y(2)] y(1) have "k x \<in> k ` set xs" by simp
    with Cons.prems show False by simp
  qed
  with Cons show ?case by simp
qed

section \<open>Facts about a file the parser refuses\<close>

lemma unparseable_data:
  assumes "parseFile w (path_join r f) = Some None" and "\<not> is_html f"
  shows "first_pass_file w r f
           = Some \<lparr>fd_exports = [], fd_imports = [], fd_lines = 0,
                   fd_globals = None, fd_htmlScriptRefs = None\<rparr>"
  using assms by (simp add: first_pass_file_def Let_def)

lemma unparseable_second_pass:
  assumes "parseFile w (path_join r f) = Some None" and "\<not> is_html f"
  shows "second_pass w r (f # files) fd = second_pass w r files fd"
  using assms by (simp add: Let_def)

lemma unparseable_symbols_first_pass:
  assumes "parseFile w (path_join r f) = Some None"
  shows "symbols_first_pass_file w r f st = Some st"
  using assms by (simp add: symbols_first_pass_file_def Let_def)

lemma unparseable_symbols_second_pass:
  assumes "parseFile w (path_join r f) = Some None"
  shows "symbols_second_pass_file w r idx f st \<noteq> None"
  using assms by (simp add: symbols_second_pass_file_def Let_def)

section \<open>Facts about the symbol index\<close>

lemma distinct_set_prop:
  assumes "distinct (map fst obj)"
  shows "distinct (map fst (set_prop obj k v))"
proof (cases "k \<in> fst ` set obj")
  case True
  then have "set_prop obj k v = map (\<lambda>(k', v'). if k' = k then (k', (\<lambda>_. v) v') else (k', v')) obj"
    by (simp add: set_prop_def)
  then have "map fst (set_prop obj k v) = map fst obj"
    by (simp only: map_fst_update_entry)
  with assms show ?thesis by simp
next
  case False
  with assms show ?thesis by (simp add: set_prop_def)
qed

lemma set_prop_entries:
  assumes "(k', v') \<in> set (set_prop obj k v)"
  shows "(k' = k \<and> v' = v) \<or> ((k', v') \<in> set obj \<and> k' \<noteq> k)"
proof (cases "k \<in> fst ` set obj")
  case True
  with assms show ?thesis by (auto simp: set_prop_def split: if_splits)
next
  case False
  with assms show ?thesis by (force simp: set_prop_def)
qed

lemma index_symbol_invariant:
  assumes d: "distinct (map fst sbf)"
    and t: "\<forall>(f, tbl)\<in>set sbf. distinct (map fst tbl) \<and> (\<forall>(n, i)\<in>set tbl. i = symbol_id f n)"
    and s: "sym_id s = symbol_id (sym_file s) (sym_name s)"
  shows "distinct (map fst (index_symbol sbf s))"
    and "\<forall>(f, tbl)\<in>set (index_symbol sbf s).
           distinct (map fst tbl) \<and> (\<forall>(n, i)\<in>set tbl. i = symbol_id f n)"
proof -
  define tbl0 where "tbl0 = (case map_of sbf (sym_file s) of None \<Rightarrow> [] | Some t \<Rightarrow> t)"
  define tbl1 where
    "tbl1 = (if sym_name s = ''__proto__'' then tbl0 else set_prop tbl0 (sym_name s) (sym_id s))"
  have ix: "index_symbol sbf s = set_prop sbf (sym_file s) tbl1"
    by (simp add: index_symbol_def Let_def tbl0_def tbl1_def)
  have t0: "distinct (map fst tbl0) \<and> (\<forall>(n, i)\<in>set tbl0. i = symbol_id (sym_file s) n)"
  proof (cases "map_of sbf (sym_file s)")
    case None
    then show ?thesis by (simp add: tbl0_def)
  next
    case (Some x)
    then have "(sym_file s, x) \<in> set sbf" by (rule map_of_SomeD)
    with t Some show ?thesis by (auto simp: tbl0_def)
  qed
  have t1: "distinct (map fst tbl1) \<and> (\<forall>(n, i)\<in>set tbl1. i = symbol_id (sym_file s) n)"
  proof (cases "sym_name s = ''__proto__''")
    case True
    with t0 show ?thesis by (simp add: tbl1_def)
  next
    case False
    then have eq: "tbl1 = set_prop tbl0 (sym_name s) (sym_id s)" by (simp add: tbl1_def)
    show ?thesis
    proof
      show "distinct (map fst tbl1)"
        unfolding eq using t0 by (intro distinct_set_prop) simp
      show "\<forall>(n, i)\<in>set tbl1. i = symbol_id (sym_file s) n"
      proof (clarify)
        fix n i assume "(n, i) \<in> set tbl1"
        from set_prop_entries[OF this[unfolded eq]] t0 s
        show "i = symbol_id (sym_file s) n" by auto
      qed
    qed
  qed
  show "distinct (map fst (index_symbol sbf s))"
    unfolding ix using d by (rule distinct_set_prop)
  show "\<forall>(f, tbl)\<in>set (index_symbol sbf s).
           distinct (map fst tbl) \<and> (\<forall>(n, i)\<in>set tbl. i = symbol_id f n)"
  proof (clarify)
    fix f tbl assume "(f, tbl) \<in> set (index_symbol sbf s)"
    from set_prop_entries[OF this[unfolded ix]]
    show "distinct (map fst tbl) \<and> (\<forall>(n, i)\<in>set tbl. i = symbol_id f n)"
    proof
      assume "f = sym_file s \<and> tbl = tbl1"
      with t1 show ?thesis by simp
    next
      assume "(f, tbl) \<in> set sbf \<and> f \<noteq> sym_file s"
      with t show ?thesis by auto
    qed
  qed
qed

lemma build_symbolByFile_invariant:
  assumes "\<forall>s\<in>set syms. sym_id s = symbol_id (sym_file s) (sym_name s)"
  shows "distinct (map fst (build_symbolByFile syms))
         \<and> (\<forall>(f, tbl)\<in>set (build_symbolByFile syms).
               distinct (map fst tbl) \<and> (\<forall>(n, i)\<in>set tbl. i = symbol_id f n))"
  unfolding build_symbolByFile_def
proof (rule foldl_invariant)
  show "distinct (map fst []) \<and>
        (\<forall>(f, tbl)\<in>set ([] :: symbol_index).
           distinct (map fst tbl) \<and> (\<forall>(n, i)\<in>set tbl. i = symbol_id f n))"
    by simp
next
  fix a :: symbol_index and x
  assume a: "distinct (map fst a) \<and>
        (\<forall>(f, tbl)\<in>set a. distinct (map fst tbl) \<and> (\<forall>(n, i)\<in>set tbl. i = symbol_id f n))"
    and x: "x \<in> set syms"
  from x assms have s: "sym_id x = symbol_id (sym_file x) (sym_name x)" by simp
  from a have d: "distinct (map fst a)" and
    t: "\<forall>(f, tbl)\<in>set a. distinct (map fst tbl) \<and> (\<forall>(n, i)\<in>set tbl. i = symbol_id f n)"
    by simp_all
  from index_symbol_invariant[OF d t s]
  show "distinct (map fst (index_symbol a x)) \<and>
        (\<forall>(f, tbl)\<in>set (index_symbol a x).
           distinct (map fst tbl) \<and> (\<forall>(n, i)\<in>set tbl. i = symbol_id f n))"
    by simp
qed

section \<open>Facts about condition texts\<close>












section \<open>Facts about the arrays of the emitted edges\<close>















section \<open>Facts about the deduplication of symbol edges\<close>



lemma edge_key_conditions_update [simp]:
  "edge_key (e\<lparr>se_conditions := c\<rparr>) = edge_key e"
  by (simp add: edge_key_def)























lemma edge_conds_read_edge:
  "edge_conds h e = (case ed_conditions (read_edge h e) of None \<Rightarrow> {} | Some cs \<Rightarrow> set cs)"
  by (simp add: edge_conds_def read_edge_def split: option.splits)















section \<open>Export extraction on \<open>module.exports = { x, y }\<close>\<close>

text \<open>
  C9. For the tree of \<open>module.exports = { x, y }\<close>, with any two non-empty property
  names in place of \<open>x\<close> and \<open>y\<close>, export extraction returns exactly two facts, named
  after the two properties in their order, each of the kind the code tags \<open>cjs\<close>
  (the CommonJS named export).
\<close>

theorem module_exports_object_yields_two_named:
  assumes "x \<noteq> []" and "y \<noteq> []"
  shows "extractExports (cjs_object_export x y)
           = [\<lparr>fname = Some x, fkind = ''cjs''\<rparr>, \<lparr>fname = Some y, fkind = ''cjs''\<rparr>]"
  using assms
  by (simp add: extractExports_def traverse_def cjs_object_export_def file_of_def mk_def
      ident_def shorthand_property_def exports_visitor_def ty_def child_def children_of_def
      opt_name_def opt_ty_def is_member_def object_name_def property_name_def truthy_def)

theorem module_exports_object_yields_two_named_witness:
  "''x'' \<noteq> [] \<and> ''y'' \<noteq> []
   \<and> extractExports (cjs_object_export ''x'' ''y'')
       = [\<lparr>fname = Some ''x'', fkind = ''cjs''\<rparr>, \<lparr>fname = Some ''y'', fkind = ''cjs''\<rparr>]"
proof -
  have x: "''x'' \<noteq> []" and y: "''y'' \<noteq> []" by simp_all
  from module_exports_object_yields_two_named[OF x y] x y show ?thesis by simp
qed

section \<open>Variable symbols have names of at least two characters\<close>

text \<open>
  C10. In every run of the symbol graph builder that returns a graph, every symbol of
  kind \<open>variable\<close> in the returned list has a name of two characters or more: a
  variable declaration with a one-character name yields no variable symbol.
\<close>

theorem single_character_variable_never_a_symbol:
  assumes "analyzeSymbols w rootDir = Some g" and "s \<in> set (sg_symbols g)"
    and "sym_type s = ''variable''"
  shows "2 \<le> length (sym_name s)"
proof -
  from assms(1,2) obtain f where "s \<in> set (extracted_symbols w rootDir f)"
    by (auto simp: analyzeSymbols_symbols)
  from this assms(3) show ?thesis by (rule extracted_symbols_facts(3))
qed

theorem single_character_variable_never_a_symbol_witness:
  "analyzeSymbols var_world ''/r''
     = Some \<lparr>sg_symbols = [var_ab], sg_edges = [], sg_files = [''a.js'']\<rparr>
   \<and> sym_type var_ab = ''variable'' \<and> 2 \<le> length (sym_name var_ab)"
proof -
  have run: "analyzeSymbols var_world ''/r''
     = Some \<lparr>sg_symbols = [var_ab], sg_edges = [], sg_files = [''a.js'']\<rparr>"
    by code_simp
  have mem: "var_ab \<in> set (sg_symbols \<lparr>sg_symbols = [var_ab], sg_edges = [],
                                          sg_files = [''a.js'']\<rparr>)"
    by simp
  have ty: "sym_type var_ab = ''variable''"
    by (simp add: var_ab_def)
  from single_character_variable_never_a_symbol[OF run mem ty] run ty show ?thesis by simp
qed

section \<open>No dangling symbol edge\<close>

text \<open>
  C1. In every run of the symbol graph builder that returns a graph, the source id
  and the target id of every returned edge are ids of symbols in the returned
  symbol list.
\<close>

theorem no_dangling_symbol_edge:
  assumes "analyzeSymbols w rootDir = Some g" and "e \<in> set (sg_edges g)"
  shows "ed_source e \<in> sym_id ` set (sg_symbols g) \<and> ed_target e \<in> sym_id ` set (sg_symbols g)"
proof -
  from assms(1) obtain st2 where g: "g = finish_symbols (scan w rootDir EXTENSIONS) st2"
    by (auto simp: analyzeSymbols_def split: option.splits)
  from assms(2) show ?thesis
    unfolding g by (auto simp: finish_symbols_def Let_def read_edge_def split: prod.splits)
qed

theorem no_dangling_symbol_edge_witness:
  "map_option (map sym_id \<circ> sg_symbols) (analyzeSymbols cond_world ''/r'')
     = Some [''a.js::foo'', ''a.js::bar'']
   \<and> map_option sg_edges (analyzeSymbols cond_world ''/r'') = Some [cond_edge]
   \<and> ed_source cond_edge = ''a.js::foo'' \<and> ed_target cond_edge = ''a.js::bar''"
proof -
  obtain g where run: "analyzeSymbols cond_world ''/r'' = Some g"
    and syms: "map sym_id (sg_symbols g) = [''a.js::foo'', ''a.js::bar'']"
    and es: "sg_edges g = [cond_edge]"
  proof -
    have "map_option (\<lambda>g. (map sym_id (sg_symbols g), sg_edges g)) (analyzeSymbols cond_world ''/r'')
            = Some ([''a.js::foo'', ''a.js::bar''], [cond_edge])"
      by code_simp
    then show ?thesis using that by auto
  qed
  have mem: "cond_edge \<in> set (sg_edges g)" using es by simp
  from no_dangling_symbol_edge[OF run mem] run syms es show ?thesis
    by (simp add: cond_edge_def)
qed

section \<open>Path containment of the file-content endpoint\<close>

text \<open>
  C4. The endpoint is meant to refuse every request whose resolved path leaves the
  analysed root. The guard compares strings, not path segments: with the root
  \<open>/srv/app\<close> the request \<open>../app-secret/key.txt\<close> resolves to
  \<open>/srv/app-secret/key.txt\<close>, which is outside the root, begins with the root's
  text, passes the guard and is served.
\<close>

theorem api_file_serves_sibling_directory:
  "path_resolve ''/'' [''/srv/app'', ''../app-secret/key.txt''] = ''/srv/app-secret/key.txt''
   \<and> \<not> inside_dir ''/srv/app'' ''/srv/app-secret/key.txt''
   \<and> api_file ''/'' sibling_disk (Some ''/srv/app'') (Some ''../app-secret/key.txt'')
       = Content ''../app-secret/key.txt'' ''s3cr3t''"
  by (simp add: api_file_def path_resolve_def startsWith_def inside_dir_def sibling_disk_def
      isAbsolute_def)

section \<open>A call inside the if-branch of an if statement\<close>



section \<open>The endpoints of a file edge\<close>

text \<open>
  C2, as the code has it. In every run of the file graph builder that returns a
  graph, the source of every edge is the id of a returned node, and so is the
  target unless it is one of the names every JavaScript object inherits. The two
  ends need not differ: nothing excludes an import that resolves to the importing
  file itself.
\<close>

theorem file_edge_endpoints:
  assumes "analyzeCodebase w rootDir = Some g" and "e \<in> set (g_edges g)"
  shows "e_source e \<in> n_id ` set (g_nodes g)
         \<and> (e_target e \<in> n_id ` set (g_nodes g) \<or> e_target e \<in> set object_prototype_names)"
proof -
  define fs where "fs = scan w rootDir ALL_EXTENSIONS"
  from assms(1) obtain fd1 fd where
    p1: "first_pass w rootDir fs [] = Some fd1" and
    p2: "second_pass w rootDir fs fd1 = Some fd" and
    g: "g = build_graph fs fd"
    unfolding fs_def by (rule analyzeCodebase_run)
  have keys: "fst ` set fd = set fs" by (rule run_keys[OF p1 p2])
  have ids: "n_id ` set (g_nodes g) = set fs"
    unfolding g by (rule graph_node_ids[OF keys])
  have es: "g_edges g = build_edges fs fd"
    by (simp add: g build_graph_def Let_def)
  have "\<forall>e\<in>set (build_edges fs fd).
           e_weight e = length (e_references e) \<and> e_source e \<in> set fs \<and> known_file fd (e_target e)"
    by (rule build_edges_invariant(2)) simp
  with assms(2) es have "e_source e \<in> set fs" "known_file fd (e_target e)" by auto
  with known_file_cases[of fd "e_target e"] keys ids show ?thesis by auto
qed

theorem file_edge_endpoints_witness:
  "analyzeCodebase self_import_world ''/r'' = Some self_import_graph
   \<and> self_loop \<in> set (g_edges self_import_graph)
   \<and> e_source self_loop \<in> n_id ` set (g_nodes self_import_graph)
   \<and> (e_target self_loop \<in> n_id ` set (g_nodes self_import_graph)
        \<or> e_target self_loop \<in> set object_prototype_names)"
proof -
  have run: "analyzeCodebase self_import_world ''/r'' = Some self_import_graph"
    by code_simp
  have mem: "self_loop \<in> set (g_edges self_import_graph)"
    by (simp add: self_import_graph_def)
  from file_edge_endpoints[OF run mem] run mem show ?thesis by simp
qed

text \<open>
  C2 as stated fails: the module \<open>a.js\<close> that imports \<open>./a.js\<close> resolves the import to
  itself, and the run returns an edge from \<open>a.js\<close> to \<open>a.js\<close>.
\<close>

theorem self_import_gives_self_loop:
  "resolveImport self_import_world ''./a.js'' ''/r/a.js'' ''/r'' = Some ''a.js''
   \<and> analyzeCodebase self_import_world ''/r'' = Some self_import_graph
   \<and> g_edges self_import_graph = [self_loop]
   \<and> e_source self_loop = ''a.js'' \<and> e_target self_loop = ''a.js''"
  by code_simp

section \<open>One edge per pair of files, and its weight\<close>

text \<open>
  C5, as the code has it. In every run of the file graph builder that returns a
  graph, no two returned edges join the same unordered pair of files, and the weight
  of every edge is the number of reference names it lists. (A weight of at least 1
  is therefore the same as a non-empty reference list.)
\<close>

theorem one_edge_per_file_pair:
  assumes "analyzeCodebase w rootDir = Some g"
  shows "distinct (map (\<lambda>e. {e_source e, e_target e}) (g_edges g))
         \<and> (\<forall>e\<in>set (g_edges g). e_weight e = length (e_references e))"
proof -
  define fs where "fs = scan w rootDir ALL_EXTENSIONS"
  from assms(1) obtain fd1 fd where
    p1: "first_pass w rootDir fs [] = Some fd1" and
    p2: "second_pass w rootDir fs fd1 = Some fd" and
    g: "g = build_graph fs fd"
    unfolding fs_def by (rule analyzeCodebase_run)
  have es: "g_edges g = build_edges fs fd"
    by (simp add: g build_graph_def Let_def)
  have d: "distinct (map (\<lambda>e. pair_key (e_source e) (e_target e)) (build_edges fs fd))"
    by (rule build_edges_invariant(1)[where S = "set fs"]) simp
  have "distinct (map (\<lambda>e. {e_source e, e_target e}) (build_edges fs fd))"
    by (rule distinct_map_coarser[OF _ d]) (rule pair_key_of_set)
  moreover have "\<forall>e\<in>set (build_edges fs fd). e_weight e = length (e_references e)"
    using build_edges_invariant(2)[where S = "set fs" and files = fs and fd = fd] by simp
  ultimately show ?thesis by (simp add: es)
qed

theorem one_edge_per_file_pair_witness:
  "analyzeCodebase bare_import_world ''/r'' = Some bare_import_graph
   \<and> distinct (map (\<lambda>e. {e_source e, e_target e}) (g_edges bare_import_graph))
   \<and> e_weight bare_edge = length (e_references bare_edge)"
proof -
  have run: "analyzeCodebase bare_import_world ''/r'' = Some bare_import_graph"
    by code_simp
  from one_edge_per_file_pair[OF run] run show ?thesis
    by (simp add: bare_import_graph_def)
qed

text \<open>
  C5 as stated fails: \<open>b.js\<close> imports \<open>./a.js\<close> for its side effects only, the import has
  no specifier, and the edge between the two files has weight 0.
\<close>

theorem bare_import_gives_weight_zero:
  "analyzeCodebase bare_import_world ''/r'' = Some bare_import_graph
   \<and> g_edges bare_import_graph = [bare_edge]
   \<and> e_source bare_edge = ''b.js'' \<and> e_target bare_edge = ''a.js''
   \<and> e_weight bare_edge = 0"
  by code_simp

section \<open>A file the parser refuses\<close>

text \<open>
  C3, as the code has it. Let \<open>f\<close> be a file that is not HTML and whose text the parser
  refuses. In every run of the file graph builder that returns a graph and scanned
  \<open>f\<close>, there is a node for \<open>f\<close>, every node for \<open>f\<close> has 0 lines and no exports, and no
  edge has \<open>f\<close> as its source. In every run of the symbol graph builder that returns a
  graph, no symbol is owned by \<open>f\<close>. And the refusal stops nothing: in each pass of
  both builders the step for \<open>f\<close> completes. The first pass of the file graph builder
  records the empty entry, its second pass and the first pass of the symbol graph
  builder leave everything as it is and go on to the next file, and the second pass
  of the symbol graph builder returns a state.
\<close>

theorem unparseable_file_is_empty:
  assumes "parseFile w (path_join rootDir f) = Some None" and "\<not> is_html f"
  shows "(\<forall>g. analyzeCodebase w rootDir = Some g \<longrightarrow> f \<in> set (scan w rootDir ALL_EXTENSIONS) \<longrightarrow>
            f \<in> n_id ` set (g_nodes g)
            \<and> (\<forall>n\<in>set (g_nodes g). n_id n = f \<longrightarrow> n_lines n = 0 \<and> n_exports n = [])
            \<and> (\<forall>e\<in>set (g_edges g). e_source e \<noteq> f))
       \<and> (\<forall>sg. analyzeSymbols w rootDir = Some sg \<longrightarrow> (\<forall>s\<in>set (sg_symbols sg). sym_file s \<noteq> f))
       \<and> first_pass_file w rootDir f
           = Some \<lparr>fd_exports = [], fd_imports = [], fd_lines = 0,
                   fd_globals = None, fd_htmlScriptRefs = None\<rparr>
       \<and> (\<forall>files fd. second_pass w rootDir (f # files) fd = second_pass w rootDir files fd)
       \<and> (\<forall>st. symbols_first_pass_file w rootDir f st = Some st)
       \<and> (\<forall>idx st. symbols_second_pass_file w rootDir idx f st \<noteq> None)"
proof (intro conjI allI impI)
  fix g
  assume run: "analyzeCodebase w rootDir = Some g" and f: "f \<in> set (scan w rootDir ALL_EXTENSIONS)"
  define fs where "fs = scan w rootDir ALL_EXTENSIONS"
  from run obtain fd1 fd where
    p1: "first_pass w rootDir fs [] = Some fd1" and
    p2: "second_pass w rootDir fs fd1 = Some fd" and
    g: "g = build_graph fs fd"
    unfolding fs_def by (rule analyzeCodebase_run)
  have dfs: "distinct fs" by (simp add: fs_def distinct_scan)
  from run_data[OF p1 p2 dfs] f unparseable_data[OF assms] assms(1)
  have d: "data_of fd f = Some \<lparr>fd_exports = [], fd_imports = [], fd_lines = 0,
                   fd_globals = None, fd_htmlScriptRefs = None\<rparr>"
    by (fastforce simp: fs_def)
  show "f \<in> n_id ` set (g_nodes g)"
    unfolding g using f d by (intro graph_node_exists) (simp_all add: fs_def)
  show "\<forall>n\<in>set (g_nodes g). n_id n = f \<longrightarrow> n_lines n = 0 \<and> n_exports n = []"
  proof (intro ballI impI)
    fix n assume n: "n \<in> set (g_nodes g)" "n_id n = f"
    from graph_nodes_of_data[OF n(1)[unfolded g]] n(2) d
    show "n_lines n = 0 \<and> n_exports n = []"
      by (auto simp: make_node_def)
  qed
  have "\<forall>e\<in>set (build_edges fs fd).
           e_weight e = length (e_references e) \<and> e_source e \<in> set fs - {f}
           \<and> known_file fd (e_target e)"
    by (rule build_edges_invariant(2)) (use d in auto)
  then show "\<forall>e\<in>set (g_edges g). e_source e \<noteq> f"
    by (auto simp: g build_graph_def Let_def)
next
  fix sg
  assume run: "analyzeSymbols w rootDir = Some sg"
  show "\<forall>s\<in>set (sg_symbols sg). sym_file s \<noteq> f"
  proof
    fix s assume "s \<in> set (sg_symbols sg)"
    with analyzeSymbols_symbols[OF run] obtain p where
      p: "s \<in> set (extracted_symbols w rootDir p)" by auto
    from extracted_symbols_parsed[OF p] assms(1) have "p \<noteq> f" by auto
    with extracted_symbols_facts(1)[OF p] show "sym_file s \<noteq> f" by simp
  qed
next
  show "first_pass_file w rootDir f
           = Some \<lparr>fd_exports = [], fd_imports = [], fd_lines = 0,
                   fd_globals = None, fd_htmlScriptRefs = None\<rparr>"
    by (rule unparseable_data[OF assms])
next
  fix files fd
  show "second_pass w rootDir (f # files) fd = second_pass w rootDir files fd"
    by (rule unparseable_second_pass[OF assms])
next
  fix st
  show "symbols_first_pass_file w rootDir f st = Some st"
    by (rule unparseable_symbols_first_pass[OF assms(1)])
next
  fix idx st
  show "symbols_second_pass_file w rootDir idx f st \<noteq> None"
    by (rule unparseable_symbols_second_pass[OF assms(1)])
qed

theorem unparseable_file_is_empty_witness:
  "parseFile broken_world (path_join ''/r'' ''bad.js'') = Some None
   \<and> \<not> is_html ''bad.js''
   \<and> analyzeCodebase broken_world ''/r'' = Some broken_graph
   \<and> ''bad.js'' \<in> set (scan broken_world ''/r'' ALL_EXTENSIONS)
   \<and> ''bad.js'' \<in> n_id ` set (g_nodes broken_graph)
   \<and> first_pass_file broken_world ''/r'' ''bad.js''
       = Some \<lparr>fd_exports = [], fd_imports = [], fd_lines = 0,
               fd_globals = None, fd_htmlScriptRefs = None\<rparr>"
proof -
  have h1: "parseFile broken_world (path_join ''/r'' ''bad.js'') = Some None" by code_simp
  have h2: "\<not> is_html ''bad.js''" by code_simp
  have run: "analyzeCodebase broken_world ''/r'' = Some broken_graph" by code_simp
  have sc: "scan broken_world ''/r'' ALL_EXTENSIONS = [''bad.js'']" by code_simp
  note T = unparseable_file_is_empty[OF h1 h2]
  from T run sc have n: "''bad.js'' \<in> n_id ` set (g_nodes broken_graph)" by simp
  from T have s: "first_pass_file broken_world ''/r'' ''bad.js''
       = Some \<lparr>fd_exports = [], fd_imports = [], fd_lines = 0,
               fd_globals = None, fd_htmlScriptRefs = None\<rparr>" by simp
  from h1 h2 run sc n s show ?thesis by simp
qed

text \<open>
  C3 as stated fails in the line count: the refused file \<open>bad.js\<close> holds one line of
  text, and its node has \<open>lines = 0\<close>.
\<close>

theorem unparseable_file_lines_are_zero:
  "readFileSync broken_world ''/r/bad.js'' = Some ''function (''
   \<and> parseFile broken_world ''/r/bad.js'' = Some None
   \<and> line_count ''function ('' = 1
   \<and> analyzeCodebase broken_world ''/r'' = Some broken_graph
   \<and> g_nodes broken_graph = [broken_node]
   \<and> n_id broken_node = ''bad.js'' \<and> n_lines broken_node = 0"
  by code_simp

section \<open>Symbol ids in the returned list\<close>

text \<open>
  C7, as the code has it. In every run of the symbol graph builder that returns a
  graph, the returned symbol list is the symbols extracted from the scanned files, in
  scan order and each file's in traversal order, with nothing removed; the id of
  every symbol is its file, \<open>::\<close> and its qualified name. Only the index
  \<open>symbolByFile\<close> that links the symbols holds one entry per file and one per name
  within a file, each name with the id made of that file and name.
\<close>

theorem returned_symbols_are_all_extracted:
  assumes "analyzeSymbols w rootDir = Some g"
  shows "sg_symbols g = concat (map (extracted_symbols w rootDir) (scan w rootDir EXTENSIONS))
         \<and> (\<forall>s\<in>set (sg_symbols g). sym_id s = symbol_id (sym_file s) (sym_name s))
         \<and> distinct (map fst (build_symbolByFile (sg_symbols g)))
         \<and> (\<forall>(f, tbl)\<in>set (build_symbolByFile (sg_symbols g)).
               distinct (map fst tbl) \<and> (\<forall>(n, i)\<in>set tbl. i = symbol_id f n))"
proof -
  have all: "sg_symbols g = concat (map (extracted_symbols w rootDir) (scan w rootDir EXTENSIONS))"
    by (rule analyzeSymbols_symbols[OF assms])
  have ids: "\<forall>s\<in>set (sg_symbols g). sym_id s = symbol_id (sym_file s) (sym_name s)"
  proof
    fix s assume "s \<in> set (sg_symbols g)"
    with all obtain p where p: "s \<in> set (extracted_symbols w rootDir p)" by auto
    from extracted_symbols_facts(1,2)[OF p]
    show "sym_id s = symbol_id (sym_file s) (sym_name s)" by simp
  qed
  from all ids build_symbolByFile_invariant[OF ids] show ?thesis by simp
qed

theorem returned_symbols_are_all_extracted_witness:
  "analyzeSymbols dup_world ''/r'' = Some dup_graph
   \<and> sg_symbols dup_graph = concat (map (extracted_symbols dup_world ''/r'') [''a.js''])
   \<and> sym_id (ab_on_line 1) = symbol_id (sym_file (ab_on_line 1)) (sym_name (ab_on_line 1))
   \<and> distinct (map fst (build_symbolByFile (sg_symbols dup_graph)))"
proof -
  have run: "analyzeSymbols dup_world ''/r'' = Some dup_graph" by code_simp
  have sc: "scan dup_world ''/r'' EXTENSIONS = [''a.js'']" by code_simp
  have mem: "ab_on_line 1 \<in> set (sg_symbols dup_graph)" by (simp add: dup_graph_def)
  note T = returned_symbols_are_all_extracted[OF run]
  from T sc have a: "sg_symbols dup_graph = concat (map (extracted_symbols dup_world ''/r'') [''a.js''])"
    by simp
  from T mem have b: "sym_id (ab_on_line 1) = symbol_id (sym_file (ab_on_line 1)) (sym_name (ab_on_line 1))"
    by blast
  from T have c: "distinct (map fst (build_symbolByFile (sg_symbols dup_graph)))"
    by blast
  from run a b c show ?thesis by simp
qed

text \<open>
  C7 as stated fails: in \<open>a.js\<close> the name \<open>ab\<close> is declared on line 1 and again on
  line 2, and the returned list holds both symbols, with the same id.
\<close>

theorem duplicate_declaration_gives_duplicate_id:
  "analyzeSymbols dup_world ''/r'' = Some dup_graph
   \<and> sg_symbols dup_graph = [ab_on_line 1, ab_on_line 2]
   \<and> startLine (ab_on_line 1) = 1 \<and> startLine (ab_on_line 2) = 2
   \<and> sym_id (ab_on_line 1) = ''a.js::ab'' \<and> sym_id (ab_on_line 2) = ''a.js::ab''"
  by code_simp

section \<open>Deduplication of symbol edges\<close>




section \<open>Conditions of an edge that shares its array\<close>

text \<open>
  The edges of one run can hold one array in common: for a call \<open>obj.render()\<close> whose
  receiver is not known, the builder emits an edge to every method of that name it
  finds elsewhere, and all of them hold the array of the call. In \<open>c.js\<close> the
  function \<open>foo\<close> calls \<open>obj.render()\<close> under \<open>x\<close>, \<open>A.render()\<close> under \<open>y\<close> (with \<open>A\<close>
  imported from \<open>a.js\<close>) and \<open>obj.render()\<close> under \<open>x\<close> again. The edges the two passes
  emit, with their keys and conditions, are listed first: the key of \<open>foo\<close> calling
  \<open>B.render\<close> is emitted twice, each time with the one condition \<open>x\<close>. The two edges
  of the first call hold one array; the deduplication stores that array under both
  keys and pushes \<open>y\<close> into it for the edge to \<open>A.render\<close>. The returned edge to
  \<open>B.render\<close> carries \<open>x\<close> and \<open>y\<close>, which is not the union of what was emitted for its
  key.
\<close>

lemma shared_conditions_array_leaks:
  "map_option
     (\<lambda>st. map (\<lambda>e. (edge_key e, map_option (store_get (arrays st)) (se_conditions e)))
                (allEdges st))
     (symbol_passes alias_world ''/r'')
     = Some [(''c.js::A|a.js::A|imports'', None),
             (''c.js::foo|a.js::A.render|calls'', Some [if_x]),
             (''c.js::foo|b.js::B.render|calls'', Some [if_x]),
             (''c.js::foo|a.js::A.render|calls'', Some [if_y]),
             (''c.js::foo|a.js::A.render|calls'', Some [if_x]),
             (''c.js::foo|b.js::B.render|calls'', Some [if_x])]
   \<and> map_option sg_edges (analyzeSymbols alias_world ''/r'')
     = Some [\<lparr>ed_source = ''c.js::foo'', ed_target = ''a.js::A.render'', ed_type = ''calls'',
              ed_conditions = Some [if_x, if_y]\<rparr>,
             \<lparr>ed_source = ''c.js::foo'', ed_target = ''b.js::B.render'', ed_type = ''calls'',
              ed_conditions = Some [if_x, if_y]\<rparr>]"
  by code_simp

end
